theory Spec2Isabelle
  imports Main "HOL-Library.Word"
begin

section \<open>Values, failures and the state of one run\<close>

text \<open>
  The development embeds \<^verbatim>\<open>src/fas/util/database/tasks.py\<close>: the \<^verbatim>\<open>migrate\<close> task, the
  coroutine \<^verbatim>\<open>_migrate\<close>, \<^verbatim>\<open>execute_migration_scripts\<close> and the DDL of the ledger table.
  Python exceptions are values of \<open>error\<close>; a coroutine is a function from the state of
  the run to a result and the state it leaves behind, so that the effects made before an
  exception are still there when it is raised.
\<close>

type_synonym path = string
type_synonym timestamp = int

datatype error =
    KeyError int
  | OSError path
  | UndefinedTable string
  | NotNullViolation string
  | NumericValueOutOfRange
  | UniqueViolation
  | CheckViolation
  | ExclusionViolation
  | DataException
  | SyntaxError string
  | DuplicateVersionError
  | PostgresError string
  | Exception
  | AssertionError
  | DidNotRaise

text \<open>The values passed to the client as keyword arguments.\<close>

datatype py_value = PyInt int | PyStr string | PyDatetime timestamp

type_synonym kwargs = "(string \<times> py_value) list"

text \<open>What the run prints, one constructor per \<^verbatim>\<open>print\<close> of the source.\<close>

datatype message =
    Did_not_migrate_parallel string
  | Did_not_migrate_no_scripts string int
  | Be_about_to_migrate string int int
  | Applying_version int
  | Migrated string int int

text \<open>The calls a run makes on its connection, in the order it makes them.\<close>

datatype call =
    Begin
  | Commit
  | Rollback
  | TryTransactionLock int
  | Execute string kwargs
  | GetScalar string kwargs
  | Exists string kwargs
  | Insert string kwargs

text \<open>
  \<open>'d\<close> is the state of the database. \<open>committed\<close> is the durable state; \<open>transaction\<close>
  holds the working copy while a transaction is open on the connection.
\<close>

record 'd session =
  committed :: 'd
  transaction :: "'d option"
  calls :: "call list"
  stdout :: "message list"

type_synonym ('d, 'a) coroutine = "'d session \<Rightarrow> (error + 'a) \<times> 'd session"

definition return :: "'a \<Rightarrow> ('d, 'a) coroutine" where
  "return a s = (Inr a, s)"

definition raise :: "error \<Rightarrow> ('d, 'a) coroutine" where
  "raise e s = (Inl e, s)"

definition await :: "('d, 'a) coroutine \<Rightarrow> ('a \<Rightarrow> ('d, 'b) coroutine) \<Rightarrow> ('d, 'b) coroutine" where
  "await m f s = (case m s of (Inl e, s') \<Rightarrow> (Inl e, s') | (Inr a, s') \<Rightarrow> f a s')"

definition lift :: "error + 'a \<Rightarrow> ('d, 'a) coroutine" where
  "lift r s = (r, s)"

definition print :: "message \<Rightarrow> ('d, unit) coroutine" where
  "print m s = (Inr (), s\<lparr>stdout := stdout s @ [m]\<rparr>)"

section \<open>The database client\<close>

text \<open>
  \<^verbatim>\<open>DBClient\<close> (module \<^verbatim>\<open>client\<close>) is not among the sources; \<^verbatim>\<open>tasks.py\<close> uses four of its
  methods and the test a fifth. They are taken as a parameter: any five functions on the
  database state, each of which may fail. A statement comes with its parameters (none in
  \<^verbatim>\<open>tasks.py\<close>); \<open>get_scalar\<close> is typed for the integer column that \<^verbatim>\<open>_migrate\<close> reads.
\<close>

record 'd DBClient =
  try_transaction_lock :: "int \<Rightarrow> 'd \<Rightarrow> error + bool \<times> 'd"
  execute :: "string \<Rightarrow> kwargs \<Rightarrow> 'd \<Rightarrow> error + 'd"
  get_scalar :: "string \<Rightarrow> kwargs \<Rightarrow> 'd \<Rightarrow> error + int option \<times> 'd"
  exists :: "string \<Rightarrow> kwargs \<Rightarrow> 'd \<Rightarrow> error + bool \<times> 'd"
  insert_into :: "string \<Rightarrow> kwargs \<Rightarrow> 'd \<Rightarrow> error + 'd"

definition current :: "'d session \<Rightarrow> 'd" where
  "current s = (case transaction s of Some w \<Rightarrow> w | None \<Rightarrow> committed s)"

definition store :: "'d \<Rightarrow> 'd session \<Rightarrow> 'd session" where
  "store w s = (case transaction s of Some _ \<Rightarrow> s\<lparr>transaction := Some w\<rparr> | None \<Rightarrow> s\<lparr>committed := w\<rparr>)"

definition logged :: "call \<Rightarrow> 'd session \<Rightarrow> 'd session" where
  "logged k s = s\<lparr>calls := calls s @ [k]\<rparr>"

definition db_try_transaction_lock :: "'d DBClient \<Rightarrow> int \<Rightarrow> ('d, bool) coroutine" where
  "db_try_transaction_lock db key s =
     (let s1 = logged (TryTransactionLock key) s in
      case try_transaction_lock db key (current s1) of
        Inl e \<Rightarrow> (Inl e, s1)
      | Inr (b, w) \<Rightarrow> (Inr b, store w s1))"

definition db_execute :: "'d DBClient \<Rightarrow> string \<Rightarrow> kwargs \<Rightarrow> ('d, unit) coroutine" where
  "db_execute db sql params s =
     (let s1 = logged (Execute sql params) s in
      case execute db sql params (current s1) of
        Inl e \<Rightarrow> (Inl e, s1)
      | Inr w \<Rightarrow> (Inr (), store w s1))"

definition db_get_scalar :: "'d DBClient \<Rightarrow> string \<Rightarrow> kwargs \<Rightarrow> ('d, int option) coroutine" where
  "db_get_scalar db sql params s =
     (let s1 = logged (GetScalar sql params) s in
      case get_scalar db sql params (current s1) of
        Inl e \<Rightarrow> (Inl e, s1)
      | Inr (v, w) \<Rightarrow> (Inr v, store w s1))"

definition db_exists :: "'d DBClient \<Rightarrow> string \<Rightarrow> kwargs \<Rightarrow> ('d, bool) coroutine" where
  "db_exists db sql params s =
     (let s1 = logged (Exists sql params) s in
      case exists db sql params (current s1) of
        Inl e \<Rightarrow> (Inl e, s1)
      | Inr (b, w) \<Rightarrow> (Inr b, store w s1))"

definition db_insert :: "'d DBClient \<Rightarrow> string \<Rightarrow> kwargs \<Rightarrow> ('d, unit) coroutine" where
  "db_insert db table kwargs s =
     (let s1 = logged (Insert table kwargs) s in
      case insert_into db table kwargs (current s1) of
        Inl e \<Rightarrow> (Inl e, s1)
      | Inr w \<Rightarrow> (Inr (), store w s1))"

section \<open>The transactional executor\<close>

definition begin_transaction :: "'d session \<Rightarrow> 'd session" where
  \<comment> \<open>Modelled from the spec: the begin primitive of the client (spec 6); the working copy
      starts as the committed state.\<close>
  "begin_transaction s = logged Begin (s\<lparr>transaction := Some (committed s)\<rparr>)"

definition commit_transaction :: "'d session \<Rightarrow> 'd session" where
  \<comment> \<open>Modelled from the spec: the commit primitive (spec 6); the working copy becomes the
      committed state.\<close>
  "commit_transaction s = logged Commit (s\<lparr>committed := current s, transaction := None\<rparr>)"

definition rollback_transaction :: "'d session \<Rightarrow> 'd session" where
  \<comment> \<open>Modelled from the spec: the rollback primitive (spec 6); the working copy is dropped.\<close>
  "rollback_transaction s = logged Rollback (s\<lparr>transaction := None\<rparr>)"

definition transactional :: "('d, 'a) coroutine \<Rightarrow> ('d, 'a) coroutine" where
  \<comment> \<open>Modelled from the spec: the decorator \<^verbatim>\<open>transactional\<close> of module \<^verbatim>\<open>transaction\<close>, which
      is not among the sources (spec 4.4): begin, run the function, commit on normal
      return, roll back on a failure and re-raise it; a call made while a transaction is
      open on the connection runs the function in that transaction.\<close>
  "transactional f s =
     (case transaction s of
        Some _ \<Rightarrow> f s
      | None \<Rightarrow>
          (case f (begin_transaction s) of
             (Inl e, s') \<Rightarrow> (Inl e, rollback_transaction s')
           | (Inr r, s') \<Rightarrow> (Inr r, commit_transaction s')))"

section \<open>The migration orchestrator\<close>

text \<open>
  What \<^verbatim>\<open>tasks.py\<close> takes from outside: the client, \<^verbatim>\<open>load_versions\<close> of module
  \<^verbatim>\<open>migration\<close> (a dictionary from version to path, as an association list, or a failure),
  \<^verbatim>\<open>Path.read_text\<close>, the clock, and the value \<^verbatim>\<open>hash\<close> gave to \<^verbatim>\<open>MIGRATION_LOCK_KEY\<close> when the
  module was imported.
\<close>

record 'd environment =
  client :: "'d DBClient"
  load_versions :: "int \<Rightarrow> error + (int \<times> path) list"
  read_text :: "path \<Rightarrow> error + string"
  now :: timestamp
  lock_key :: int

definition MIGRATION_TABLE :: string where
  "MIGRATION_TABLE = ''database_migration''"

definition create_table_sql :: string where
  \<comment> \<open>the statement of lines 165-175, with the table name filled in and its white space,
      which SQL ignores, reduced to single blanks\<close>
  "create_table_sql =
     ''CREATE TABLE IF NOT EXISTS '' @ MIGRATION_TABLE @ '' ('' @
     ''id INT GENERATED BY DEFAULT AS IDENTITY PRIMARY KEY, '' @
     ''from_version INT NOT NULL, '' @
     ''to_version INT NOT NULL, '' @
     ''migrated_at TIMESTAMP WITH TIME ZONE NOT NULL, '' @
     ''CHECK (to_version > from_version), '' @
     ''EXCLUDE USING GIST (NUMRANGE(from_version, to_version, '(]') WITH &&))''"

definition create_database_migration_table_if_not_exist :: "'d DBClient \<Rightarrow> ('d, unit) coroutine" where
  "create_database_migration_table_if_not_exist db = db_execute db create_table_sql []"

definition current_version_sql :: string where
  "current_version_sql = ''SELECT to_version FROM database_migration ORDER BY id DESC LIMIT 1''"

definition py_or :: "int option \<Rightarrow> int \<Rightarrow> int" where
  \<comment> \<open>\<^verbatim>\<open>x or y\<close>: \<open>y\<close> when \<open>x\<close> is \<^verbatim>\<open>None\<close> or zero.\<close>
  "py_or x y = (case x of None \<Rightarrow> y | Some v \<Rightarrow> if v = 0 then y else v)"

definition read_current_version :: "'d DBClient \<Rightarrow> ('d, int) coroutine" where
  \<comment> \<open>lines 141-142 of \<^verbatim>\<open>_migrate\<close>\<close>
  "read_current_version db = await (db_get_scalar db current_version_sql []) (\<lambda>v. return (py_or v 0))"

definition getitem :: "(int \<times> path) list \<Rightarrow> int \<Rightarrow> error + path" where
  \<comment> \<open>\<^verbatim>\<open>versions[version]\<close>\<close>
  "getitem versions version = (case map_of versions version of None \<Rightarrow> Inl (KeyError version) | Some p \<Rightarrow> Inr p)"

fun apply_versions :: "'d environment \<Rightarrow> (int \<times> path) list \<Rightarrow> int list \<Rightarrow> ('d, unit) coroutine" where
  "apply_versions env versions [] = return ()"
| "apply_versions env versions (version # rest) =
     await (print (Applying_version version)) (\<lambda>_.
     await (lift (getitem versions version)) (\<lambda>p.
     await (lift (read_text env p)) (\<lambda>sql.
     await (db_execute (client env) sql []) (\<lambda>_.
     apply_versions env versions rest))))"

definition execute_migration_scripts_body ::
  "'d environment \<Rightarrow> int \<Rightarrow> int \<Rightarrow> (int \<times> path) list \<Rightarrow> ('d, unit) coroutine" where
  \<comment> \<open>the function of lines 156-161, before its decorator; \<^verbatim>\<open>range(from_version + 1,
      to_version + 1)\<close> is the list of the versions \<open>from_version + 1, ..., to_version\<close>\<close>
  "execute_migration_scripts_body env from_v to_v versions =
     await (apply_versions env versions [from_v + 1 .. to_v]) (\<lambda>_.
     db_insert (client env) ''database_migration''
       [(''from_version'', PyInt from_v), (''to_version'', PyInt to_v), (''migrated_at'', PyDatetime (now env))])"

definition execute_migration_scripts ::
  "'d environment \<Rightarrow> int \<Rightarrow> int \<Rightarrow> (int \<times> path) list \<Rightarrow> ('d, unit) coroutine" where
  "execute_migration_scripts env from_v to_v versions =
     transactional (execute_migration_scripts_body env from_v to_v versions)"

definition max_key :: "(int \<times> path) list \<Rightarrow> int" where
  \<comment> \<open>\<^verbatim>\<open>max(new_versions)\<close> on a non-empty dictionary: its largest key\<close>
  "max_key versions = fold max (map fst (tl versions)) (fst (hd versions))"

definition migrate_body :: "'d environment \<Rightarrow> string \<Rightarrow> ('d, unit) coroutine" where
  \<comment> \<open>the function \<^verbatim>\<open>_migrate\<close> of lines 134-152, before its decorator\<close>
  "migrate_body env db_name =
     await (db_try_transaction_lock (client env) (lock_key env)) (\<lambda>locked.
     if \<not> locked then print (Did_not_migrate_parallel db_name)
     else
       await (create_database_migration_table_if_not_exist (client env)) (\<lambda>_.
       await (read_current_version (client env)) (\<lambda>current_version.
       await (lift (load_versions env current_version)) (\<lambda>new_versions.
       if new_versions = [] then print (Did_not_migrate_no_scripts db_name current_version)
       else
         let to_version = max_key new_versions in
         await (print (Be_about_to_migrate db_name current_version to_version)) (\<lambda>_.
         await (execute_migration_scripts env current_version to_version new_versions) (\<lambda>_.
         print (Migrated db_name current_version to_version)))))))"

definition migrate :: "'d environment \<Rightarrow> string \<Rightarrow> ('d, unit) coroutine" where
  \<comment> \<open>\<^verbatim>\<open>_migrate\<close>: an Isabelle name cannot start with an underscore\<close>
  "migrate env db_name = transactional (migrate_body env db_name)"

section \<open>The database engine and the ledger table\<close>

text \<open>
  The engine behind the client is not among the sources either. Its model is written from
  the two SQL texts of \<^verbatim>\<open>tasks.py\<close> (the \<^verbatim>\<open>CREATE TABLE\<close> of lines 165-175 and the
  \<^verbatim>\<open>SELECT\<close> of line 142) and from the client capability of spec 6. A migration script acts
  on the application's part of the database; the ledger table is written by
  \<^verbatim>\<open>execute_migration_scripts\<close> alone (spec 3: one record per successful run, never updated
  or deleted).
\<close>

record migration_record =
  row_id :: int
  from_version :: int
  to_version :: int
  migrated_at :: timestamp

datatype table_constraint =
    PRIMARY_KEY_id
  | CHECK_to_version_gt_from_version
  | EXCLUDE_numrange_overlap

record table =
  constraints :: "table_constraint list"
  rows :: "migration_record list"
  identity :: int

record 'u database =
  database_migration :: "table option"
  application :: 'u
  locked_elsewhere :: "int list"

definition int4 :: "int \<Rightarrow> bool" where
  "int4 v = (- (2 ^ 31) \<le> v \<and> v < 2 ^ 31)"

definition int8 :: "int \<Rightarrow> bool" where
  "int8 v = (- (2 ^ 63) \<le> v \<and> v < 2 ^ 63)"

definition numrange_overlaps :: "migration_record \<Rightarrow> migration_record \<Rightarrow> bool" where
  \<comment> \<open>\<^verbatim>\<open>NUMRANGE(from_version, to_version, '(]') && NUMRANGE(from_version, to_version, '(]')\<close>:
      the two ranges, open below and closed above, share a point\<close>
  "numrange_overlaps r r' =
     (max (from_version r) (from_version r') < min (to_version r) (to_version r'))"

fun violation :: "migration_record list \<Rightarrow> migration_record \<Rightarrow> table_constraint \<Rightarrow> error option" where
  "violation rs r PRIMARY_KEY_id =
     (if row_id r \<in> set (map row_id rs) then Some UniqueViolation else None)"
| "violation rs r CHECK_to_version_gt_from_version =
     (if to_version r > from_version r then None else Some CheckViolation)"
| "violation rs r EXCLUDE_numrange_overlap =
     (if from_version r > to_version r then Some DataException
      else if \<exists>r' \<in> set rs. numrange_overlaps r r' then Some ExclusionViolation
      else None)"

fun first_violation :: "migration_record list \<Rightarrow> migration_record \<Rightarrow> table_constraint list \<Rightarrow> error option" where
  "first_violation rs r [] = None"
| "first_violation rs r (k # ks) =
     (case violation rs r k of Some e \<Rightarrow> Some e | None \<Rightarrow> first_violation rs r ks)"

definition ledger_constraints :: "table_constraint list" where
  \<comment> \<open>the constraints of the \<^verbatim>\<open>CREATE TABLE\<close> text, in the order the engine checks a new row
      against them: the check constraint, then the two indexes\<close>
  "ledger_constraints = [CHECK_to_version_gt_from_version, PRIMARY_KEY_id, EXCLUDE_numrange_overlap]"

definition insert_row :: "table \<Rightarrow> int \<Rightarrow> int \<Rightarrow> timestamp \<Rightarrow> error + table" where
  "insert_row t f v m =
     (if \<not> (int4 (identity t) \<and> int4 f \<and> int4 v) then Inl NumericValueOutOfRange
      else
        let r = \<lparr>row_id = identity t, from_version = f, to_version = v, migrated_at = m\<rparr> in
        case first_violation (rows t) r (constraints t) of
          Some e \<Rightarrow> Inl e
        | None \<Rightarrow> Inr (t\<lparr>rows := rows t @ [r], identity := identity t + 1\<rparr>))"

definition select_to_version_order_by_id_desc_limit_1 :: "migration_record list \<Rightarrow> int option" where
  "select_to_version_order_by_id_desc_limit_1 rs =
     (case sort_key (\<lambda>r. - row_id r) rs of [] \<Rightarrow> None | r # _ \<Rightarrow> Some (to_version r))"

definition pg_try_transaction_lock :: "int \<Rightarrow> 'u database \<Rightarrow> error + bool \<times> 'u database" where
  \<comment> \<open>Modelled from the spec: \<^verbatim>\<open>tryAcquire\<close> (spec 4.3), which never blocks: \<open>False\<close> when
      another session holds the key. The key is a \<^verbatim>\<open>bigint\<close>.\<close>
  "pg_try_transaction_lock key d =
     (if int8 key then Inr (key \<notin> set (locked_elsewhere d), d) else Inl NumericValueOutOfRange)"

definition pg_execute ::
  "(string \<Rightarrow> 'u \<Rightarrow> error + 'u) \<Rightarrow> string \<Rightarrow> kwargs \<Rightarrow> 'u database \<Rightarrow> error + 'u database" where
  \<comment> \<open>Modelled from the spec: \<^verbatim>\<open>execute\<close> (spec 6). The text of
      \<^verbatim>\<open>create_database_migration_table_if_not_exist\<close> creates the ledger table when it is
      absent; any other text is a script, with the meaning \<open>scripts\<close> gives it.\<close>
  "pg_execute scripts sql params d =
     (if sql = create_table_sql then
        (case database_migration d of
           None \<Rightarrow> Inr (d\<lparr>database_migration := Some \<lparr>constraints = ledger_constraints, rows = [], identity = 1\<rparr>\<rparr>)
         | Some _ \<Rightarrow> Inr d)
      else
        (case scripts sql (application d) of
           Inl e \<Rightarrow> Inl e
         | Inr a \<Rightarrow> Inr (d\<lparr>application := a\<rparr>)))"

definition pg_get_scalar :: "string \<Rightarrow> kwargs \<Rightarrow> 'u database \<Rightarrow> error + int option \<times> 'u database" where
  \<comment> \<open>Modelled from the spec: \<^verbatim>\<open>getScalar\<close> (spec 6), for the one query of \<^verbatim>\<open>_migrate\<close>.\<close>
  "pg_get_scalar sql params d =
     (if sql = current_version_sql then
        (case database_migration d of
           None \<Rightarrow> Inl (UndefinedTable MIGRATION_TABLE)
         | Some t \<Rightarrow> Inr (select_to_version_order_by_id_desc_limit_1 (rows t), d))
      else Inl (SyntaxError sql))"

definition pg_exists :: "string \<Rightarrow> kwargs \<Rightarrow> 'u database \<Rightarrow> error + bool \<times> 'u database" where
  \<comment> \<open>Modelled from the spec: \<^verbatim>\<open>exists\<close> (spec 6); \<^verbatim>\<open>tasks.py\<close> has no such query.\<close>
  "pg_exists sql params d = Inl (SyntaxError sql)"

definition pg_insert :: "string \<Rightarrow> kwargs \<Rightarrow> 'u database \<Rightarrow> error + 'u database" where
  \<comment> \<open>Modelled from the spec: \<^verbatim>\<open>insert\<close> (spec 6) into the ledger table; the three columns
      are \<^verbatim>\<open>NOT NULL\<close>, so a row with a column missing or of another type is rejected.\<close>
  "pg_insert name kwargs d =
     (if name \<noteq> MIGRATION_TABLE then Inl (UndefinedTable name)
      else
        case database_migration d of
          None \<Rightarrow> Inl (UndefinedTable name)
        | Some t \<Rightarrow>
            (case (map_of kwargs ''from_version'', map_of kwargs ''to_version'', map_of kwargs ''migrated_at'') of
               (Some (PyInt f), Some (PyInt v), Some (PyDatetime m)) \<Rightarrow>
                 (case insert_row t f v m of
                    Inl e \<Rightarrow> Inl e
                  | Inr t' \<Rightarrow> Inr (d\<lparr>database_migration := Some t'\<rparr>))
             | _ \<Rightarrow> Inl (NotNullViolation name)))"

definition postgres :: "(string \<Rightarrow> 'u \<Rightarrow> error + 'u) \<Rightarrow> 'u database DBClient" where
  "postgres scripts =
     \<lparr>try_transaction_lock = pg_try_transaction_lock,
      execute = pg_execute scripts,
      get_scalar = pg_get_scalar,
      exists = pg_exists,
      insert_into = pg_insert\<rparr>"

definition fresh :: "'d \<Rightarrow> 'd session" where
  \<comment> \<open>a connection just acquired from the pool, as \<^verbatim>\<open>_migrate_database\<close> hands it to \<^verbatim>\<open>_migrate\<close>\<close>
  "fresh d = \<lparr>committed = d, transaction = None, calls = [], stdout = []\<rparr>"

definition ledger :: "'u database \<Rightarrow> migration_record list" where
  "ledger d = (case database_migration d of None \<Rightarrow> [] | Some t \<Rightarrow> rows t)"

definition currentVersion :: "'u database \<Rightarrow> error + int" where
  \<comment> \<open>the read of lines 141-142, made on the committed database\<close>
  "currentVersion d = fst (read_current_version (postgres (\<lambda>_. Inr)) (fresh d))"

section \<open>The lock key\<close>

text \<open>
  Line 124: \<^verbatim>\<open>MIGRATION_LOCK_KEY = hash(f'i48gEtCCfX1lxPpWgVyBYH1z4VQpFNz7+{MIGRATION_TABLE}')\<close>,
  computed when the module is imported; \<open>lock_key\<close> of the environment is this value.
  \<^verbatim>\<open>hash\<close> of a string is CPython's keyed SipHash of its bytes (SipHash-2-4 up to Python 3.10,
  SipHash-1-3 from 3.11 on), cast to a signed 64-bit integer, with \<open>-1\<close> replaced by \<open>-2\<close>. The
  key is the secret of the process: 16 random bytes unless \<^verbatim>\<open>PYTHONHASHSEED\<close> is set, and then
  the output of a linear congruential generator started at the seed (all zero for seed 0).
  Unsigned 64-bit values are integers, with the wrap-around written out.
\<close>

unbundle bit_operations_syntax

type_synonym hash_secret = "int \<times> int"
type_synonym sip_state = "int \<times> int \<times> int \<times> int"

definition u64 :: "int \<Rightarrow> int" where
  "u64 x = x mod 2 ^ 64"

definition ROTATE :: "int \<Rightarrow> nat \<Rightarrow> int" where
  "ROTATE x b = u64 (push_bit b x) OR drop_bit (64 - b) x"

fun HALF_ROUND :: "sip_state \<Rightarrow> nat \<Rightarrow> nat \<Rightarrow> sip_state" where
  "HALF_ROUND (a, b, c, d) s t =
     (let a = u64 (a + b); c = u64 (c + d); b = ROTATE b s XOR a; d = ROTATE d t XOR c
      in (ROTATE a 32, b, c, d))"

fun SINGLE_ROUND :: "sip_state \<Rightarrow> sip_state" where
  "SINGLE_ROUND (v0, v1, v2, v3) =
     (case HALF_ROUND (v0, v1, v2, v3) 13 16 of (v0, v1, v2, v3) \<Rightarrow>
      case HALF_ROUND (v2, v1, v0, v3) 17 21 of (v2, v1, v0, v3) \<Rightarrow> (v0, v1, v2, v3))"

fun le64 :: "int list \<Rightarrow> int" where
  "le64 [] = 0"
| "le64 (b # bs) = b + 256 * le64 bs"

fun absorb :: "nat \<Rightarrow> int \<Rightarrow> sip_state \<Rightarrow> sip_state" where
  "absorb c mi (v0, v1, v2, v3) =
     (case (SINGLE_ROUND ^^ c) (v0, v1, v2, v3 XOR mi) of (v0, v1, v2, v3) \<Rightarrow> (v0 XOR mi, v1, v2, v3))"

fun compress :: "nat \<Rightarrow> sip_state \<Rightarrow> int list \<Rightarrow> sip_state \<times> int list" where
  "compress c v (b0 # b1 # b2 # b3 # b4 # b5 # b6 # b7 # rest) =
     compress c (absorb c (le64 [b0, b1, b2, b3, b4, b5, b6, b7]) v) rest"
| "compress c v tail = (v, tail)"

definition siphash :: "nat \<Rightarrow> nat \<Rightarrow> hash_secret \<Rightarrow> int list \<Rightarrow> int" where
  "siphash c d secret src =
     (case secret of (k0, k1) \<Rightarrow>
      case compress c (k0 XOR 0x736f6d6570736575, k1 XOR 0x646f72616e646f6d,
                       k0 XOR 0x6c7967656e657261, k1 XOR 0x7465646279746573) src of (v, tail) \<Rightarrow>
      case absorb c (u64 (push_bit 56 (int (length src))) OR le64 tail) v of (v0, v1, v2, v3) \<Rightarrow>
      case (SINGLE_ROUND ^^ d) (v0, v1, v2 XOR 0xff, v3) of (v0, v1, v2, v3) \<Rightarrow>
        v0 XOR v1 XOR v2 XOR v3)"

definition py_hash :: "(hash_secret \<Rightarrow> int list \<Rightarrow> int) \<Rightarrow> hash_secret \<Rightarrow> string \<Rightarrow> int" where
  "py_hash alg secret s =
     (if s = [] then 0
      else let u = alg secret (map of_char s); x = (if u < 2 ^ 63 then u else u - 2 ^ 64)
           in if x = - 1 then - 2 else x)"

definition lcg_next :: "int \<Rightarrow> int" where
  "lcg_next x = (x * 214013 + 2531011) mod 2 ^ 32"

fun lcg_urandom :: "int \<Rightarrow> nat \<Rightarrow> int list" where
  "lcg_urandom x 0 = []"
| "lcg_urandom x (Suc n) = (lcg_next x div 2 ^ 16) mod 256 # lcg_urandom (lcg_next x) n"

definition secret_of_seed :: "int \<Rightarrow> hash_secret" where
  "secret_of_seed seed =
     (if seed = 0 then (0, 0)
      else (le64 (take 8 (lcg_urandom seed 24)), le64 (take 8 (drop 8 (lcg_urandom seed 24)))))"

definition MIGRATION_LOCK_KEY :: "(hash_secret \<Rightarrow> int list \<Rightarrow> int) \<Rightarrow> hash_secret \<Rightarrow> int" where
  "MIGRATION_LOCK_KEY alg secret = py_hash alg secret (''i48gEtCCfX1lxPpWgVyBYH1z4VQpFNz7+'' @ MIGRATION_TABLE)"

section \<open>The migrate task\<close>

text \<open>
  The task \<^verbatim>\<open>migrate_database\<close> (lines 52-61) with \<^verbatim>\<open>create_database_if_not_exist\<close> (lines
  19-33) and \<^verbatim>\<open>_migrate_database\<close> (lines 127-130). What the task finds outside is a
  parameter: the two flags of \<^verbatim>\<open>ENV\<close> (module \<^verbatim>\<open>fas.environment\<close>), the outcome of each of the
  two guards of module \<^verbatim>\<open>migration\<close> (the failure it raises, if any), the answer of the
  server to \<^verbatim>\<open>is_database_existed\<close> (the database of that name, when there is one) and the
  outcome of \<^verbatim>\<open>createdb\<close>. The steps the task takes are recorded in order.
\<close>

datatype step =
    Check_no_scripts_not_locked
  | Check_no_locked_scripts_changed
  | Is_database_existed
  | Createdb
  | Acquire_connection

record 'd host =
  is_dev :: bool
  is_test :: bool
  check_no_scripts_not_locked :: "error option"
  check_no_locked_scripts_changed :: "error option"
  server :: "error + 'd option"
  createdb :: "error + 'd"

definition create_database_if_not_exist :: "'d host \<Rightarrow> (error + 'd) \<times> step list" where
  "create_database_if_not_exist h =
     (case server h of
        Inl e \<Rightarrow> (Inl e, [Is_database_existed])
      | Inr (Some d) \<Rightarrow> (Inr d, [Is_database_existed])
      | Inr None \<Rightarrow>
          (case createdb h of
             Inl e \<Rightarrow> (Inl e, [Is_database_existed, Createdb])
           | Inr d \<Rightarrow> (Inr d, [Is_database_existed, Createdb])))"

definition migrate_database ::
  "'d host \<Rightarrow> 'd environment \<Rightarrow> string \<Rightarrow> (error + unit) \<times> step list \<times> 'd session option" where
  "migrate_database h env db_name =
     (let guards =
            (if \<not> (is_dev h \<or> is_test h) then
               (case check_no_scripts_not_locked h of
                  Some e \<Rightarrow> (Inl e, [Check_no_scripts_not_locked])
                | None \<Rightarrow>
                    (case check_no_locked_scripts_changed h of
                       Some e \<Rightarrow> (Inl e, [Check_no_scripts_not_locked, Check_no_locked_scripts_changed])
                     | None \<Rightarrow> (Inr (), [Check_no_scripts_not_locked, Check_no_locked_scripts_changed])))
             else (Inr (), []))
      in case guards of
           (Inl e, steps) \<Rightarrow> (Inl e, steps, None)
         | (Inr u, steps) \<Rightarrow>
             (case create_database_if_not_exist h of
                (Inl e, steps') \<Rightarrow> (Inl e, steps @ steps', None)
              | (Inr d, steps') \<Rightarrow>
                  (case migrate env db_name (fresh d) of
                     (r, s) \<Rightarrow> (r, steps @ steps' @ [Acquire_connection], Some s))))"

definition is_guard :: "step \<Rightarrow> bool" where
  "is_guard k = (k = Check_no_scripts_not_locked \<or> k = Check_no_locked_scripts_changed)"

definition steps_of :: "(error + unit) \<times> step list \<times> 'd session option \<Rightarrow> step list" where
  "steps_of outcome = fst (snd outcome)"

section \<open>The invariant of the ledger\<close>



definition ledger_row :: "int \<Rightarrow> int \<Rightarrow> timestamp \<Rightarrow> kwargs" where
  \<comment> \<open>the keyword arguments of the insert of lines 160-161\<close>
  "ledger_row f v m = [(''from_version'', PyInt f), (''to_version'', PyInt v), (''migrated_at'', PyDatetime m)]"

definition sequence_ahead :: "'u database \<Rightarrow> bool" where
  \<comment> \<open>the identity sequence of the ledger table is ahead of every id in the table, as it is
      when every row got its id from the sequence\<close>
  "sequence_ahead d =
     (case database_migration d of
        None \<Rightarrow> True
      | Some t \<Rightarrow> list_all (\<lambda>r. row_id r < identity t) (rows t))"

definition ensure_table :: "'u database \<Rightarrow> 'u database" where
  \<comment> \<open>the database after the \<^verbatim>\<open>CREATE TABLE IF NOT EXISTS\<close> of the ledger table\<close>
  "ensure_table d =
     (case database_migration d of
        None \<Rightarrow> d\<lparr>database_migration := Some \<lparr>constraints = ledger_constraints, rows = [], identity = 1\<rparr>\<rparr>
      | Some _ \<Rightarrow> d)"

definition version_of :: "'u database \<Rightarrow> int" where
  \<comment> \<open>what \<^verbatim>\<open>_migrate\<close> reads as \<^verbatim>\<open>current_version\<close> once the table is there\<close>
  "version_of d = py_or (select_to_version_order_by_id_desc_limit_1 (ledger d)) 0"

definition loop_start :: "'d session \<Rightarrow> 'd \<Rightarrow> int \<Rightarrow> string \<Rightarrow> int \<Rightarrow> int \<Rightarrow> 'd session" where
  \<comment> \<open>the state in which \<^verbatim>\<open>execute_migration_scripts\<close> enters its loop, in a run of \<^verbatim>\<open>_migrate\<close>
      started in \<open>s\<close> with no open transaction: the lock attempt, the table creation and the
      version read have left the working copy \<open>w\<close>, and the run has printed what it is about
      to do\<close>
  "loop_start s w key db_name current_version target =
     \<lparr>committed = committed s, transaction = Some w,
      calls = calls s @ [Begin, TryTransactionLock key, Execute create_table_sql [],
                         GetScalar current_version_sql []],
      stdout = stdout s @ [Be_about_to_migrate db_name current_version target]\<rparr>"

definition script_of :: "'d environment \<Rightarrow> (int \<times> path) list \<Rightarrow> int \<Rightarrow> error + string" where
  \<comment> \<open>\<^verbatim>\<open>versions[version].read_text(encoding='UTF-8')\<close>\<close>
  "script_of env versions version =
     (case getitem versions version of Inl e \<Rightarrow> Inl e | Inr p \<Rightarrow> read_text env p)"

section \<open>The test of the transactional executor\<close>

text \<open>
  \<^verbatim>\<open>src/tests/database/test_transaction.py\<close>: the function \<^verbatim>\<open>func\<close> it wraps, and the test
  itself, which passes when it returns without a failure.
\<close>

definition name :: string where
  "name = ''ORG#1''"

definition new_name :: string where
  "new_name = ''NEW-ORG#1''"

definition update_sql :: string where
  "update_sql = ''UPDATE organization SET name=:new_name WHERE name=:name''"

definition select_sql :: string where
  "select_sql = ''SELECT name FROM organization WHERE name=:name''"

definition delete_sql :: string where
  "delete_sql = ''DELETE FROM organization WHERE name=:name''"

definition func_body :: "'d DBClient \<Rightarrow> bool \<Rightarrow> ('d, unit) coroutine" where
  "func_body db raise_exception =
     await (db_insert db ''organization''
              [(''conflict_target'', PyStr ''(name)''), (''conflict_action'', PyStr ''DO NOTHING''),
               (''name'', PyStr name)]) (\<lambda>_.
     if raise_exception then raise Exception
     else db_execute db update_sql [(''name'', PyStr name), (''new_name'', PyStr new_name)])"

definition func :: "'d DBClient \<Rightarrow> bool \<Rightarrow> ('d, unit) coroutine" where
  "func db raise_exception = transactional (func_body db raise_exception)"

definition assert :: "bool \<Rightarrow> ('d, unit) coroutine" where
  "assert b = (if b then return () else raise AssertionError)"

definition pytest_raises :: "('d, 'a) coroutine \<Rightarrow> ('d, unit) coroutine" where
  \<comment> \<open>\<^verbatim>\<open>with pytest.raises(Exception)\<close>: the block has to raise\<close>
  "pytest_raises m s = (case m s of (Inl e, s') \<Rightarrow> (Inr (), s') | (Inr a, s') \<Rightarrow> (Inl DidNotRaise, s'))"

definition test_transaction :: "'d DBClient \<Rightarrow> ('d, unit) coroutine" where
  "test_transaction db =
     await (func db False) (\<lambda>_.
     await (db_exists db select_sql [(''name'', PyStr name)]) (\<lambda>found.
     await (assert (\<not> found)) (\<lambda>_.
     await (db_exists db select_sql [(''name'', PyStr new_name)]) (\<lambda>found.
     await (assert found) (\<lambda>_.
     await (db_execute db delete_sql [(''name'', PyStr new_name)]) (\<lambda>_.
     await (pytest_raises (func db True)) (\<lambda>_.
     await (db_exists db select_sql [(''name'', PyStr name)]) (\<lambda>found.
     await (assert (\<not> found)) (\<lambda>_.
     await (db_exists db select_sql [(''name'', PyStr new_name)]) (\<lambda>found.
     assert (\<not> found)))))))))))"

text \<open>
  The database of the test: the names in the table \<^verbatim>\<open>organization\<close>, which are unique (the
  conflict target of the insert).
\<close>

definition org_insert :: "string \<Rightarrow> kwargs \<Rightarrow> string list \<Rightarrow> error + string list" where
  \<comment> \<open>Modelled from the spec: \<^verbatim>\<open>insert\<close> (spec 6), with the conflict clause of the test.\<close>
  "org_insert table kw d =
     (if table \<noteq> ''organization'' then Inl (UndefinedTable table)
      else
        case map_of kw ''name'' of
          Some (PyStr n) \<Rightarrow>
            (if n \<in> set d then
               (if map_of kw ''conflict_action'' = Some (PyStr ''DO NOTHING'') then Inr d
                else Inl UniqueViolation)
             else Inr (d @ [n]))
        | _ \<Rightarrow> Inl (NotNullViolation table))"

definition org_execute :: "string \<Rightarrow> kwargs \<Rightarrow> string list \<Rightarrow> error + string list" where
  \<comment> \<open>Modelled from the spec: \<^verbatim>\<open>execute\<close> (spec 6), for the two statements of the test.\<close>
  "org_execute sql params d =
     (if sql = update_sql then
        (case (map_of params ''name'', map_of params ''new_name'') of
           (Some (PyStr n), Some (PyStr m)) \<Rightarrow>
             (if n \<in> set d \<and> m \<in> set d \<and> n \<noteq> m then Inl UniqueViolation
              else Inr (map (\<lambda>x. if x = n then m else x) d))
         | _ \<Rightarrow> Inl DataException)
      else if sql = delete_sql then
        (case map_of params ''name'' of
           Some (PyStr n) \<Rightarrow> Inr (filter (\<lambda>x. x \<noteq> n) d)
         | _ \<Rightarrow> Inl DataException)
      else Inl (SyntaxError sql))"

definition org_exists :: "string \<Rightarrow> kwargs \<Rightarrow> string list \<Rightarrow> error + bool \<times> string list" where
  \<comment> \<open>Modelled from the spec: \<^verbatim>\<open>exists\<close> (spec 6), for the query of the test.\<close>
  "org_exists sql params d =
     (if sql = select_sql then
        (case map_of params ''name'' of
           Some (PyStr n) \<Rightarrow> Inr (n \<in> set d, d)
         | _ \<Rightarrow> Inl DataException)
      else Inl (SyntaxError sql))"

definition organization :: "string list DBClient" where
  "organization =
     \<lparr>try_transaction_lock = (\<lambda>key d. Inr (True, d)),
      execute = org_execute,
      get_scalar = (\<lambda>sql params d. Inl (SyntaxError sql)),
      exists = org_exists,
      insert_into = org_insert\<rparr>"

section \<open>The script loader and the files\<close>

definition load_versions_spec :: "(int \<times> path) list \<Rightarrow> int \<Rightarrow> error + (int \<times> path) list" where
  \<comment> \<open>Modelled from the spec: \<^verbatim>\<open>load_versions\<close> of module \<^verbatim>\<open>migration\<close>, which is not among the
      sources (\<^verbatim>\<open>listAvailableVersions\<close>, spec 4.1). The scripts directory is given as the
      versions its file names encode, each with its path; the scripts with a version
      strictly greater than \<open>after\<close> are returned, and two scripts with one version are a
      failure. How a file name encodes its version is not in the spec.\<close>
  "load_versions_spec directory after =
     (if distinct (map fst directory) then Inr (filter (\<lambda>(v, p). after < v) directory)
      else Inl DuplicateVersionError)"

definition read_text_from :: "(path \<times> string) list \<Rightarrow> path \<Rightarrow> error + string" where
  \<comment> \<open>\<^verbatim>\<open>Path.read_text\<close> on a file system given as paths with their contents\<close>
  "read_text_from files p = (case map_of files p of None \<Rightarrow> Inl (OSError p) | Some text \<Rightarrow> Inr text)"

section \<open>Coroutines that keep to the open transaction\<close>

definition keeps_transaction :: "('d, 'a) coroutine \<Rightarrow> bool" where
  \<comment> \<open>run while a transaction is open, the coroutine leaves the committed state alone and
      the transaction open: it reaches the database through the client only\<close>
  "keeps_transaction m =
     (\<forall>s. transaction s \<noteq> None \<longrightarrow>
        committed (snd (m s)) = committed s \<and> transaction (snd (m s)) \<noteq> None)"

section \<open>Example states\<close>



text \<open>
  An application whose state is the list of the script texts executed so far; the text
  \<^verbatim>\<open>BROKEN\<close> is a script the engine rejects.
\<close>

definition run_script :: "string \<Rightarrow> string list \<Rightarrow> error + string list" where
  "run_script sql a = (if sql = ''BROKEN'' then Inl (PostgresError sql) else Inr (a @ [sql]))"

definition empty_database :: "string list database" where
  "empty_database = \<lparr>database_migration = None, application = [], locked_elsewhere = []\<rparr>"

definition example_files :: "(path \<times> string) list" where
  "example_files =
     [(''1.sql'', ''ONE''), (''2.sql'', ''TWO''), (''3.sql'', ''THREE''), (''4.sql'', ''FOUR''),
      (''5.sql'', ''FIVE''), (''bad.sql'', ''BROKEN'')]"

definition example_env :: "(int \<times> path) list \<Rightarrow> string list database environment" where
  "example_env directory =
     \<lparr>client = postgres run_script,
      load_versions = load_versions_spec directory,
      read_text = read_text_from example_files,
      now = 1000,
      lock_key = 42\<rparr>"

definition locked_database :: "string list database" where
  \<comment> \<open>another session holds the advisory lock\<close>
  "locked_database = \<lparr>database_migration = None, application = [], locked_elsewhere = [42]\<rparr>"

text \<open>The database after the scripts 1, 2, 3 were applied to the empty one.\<close>

definition database_at_3 :: "string list database" where
  "database_at_3 =
     \<lparr>database_migration =
        Some \<lparr>constraints = ledger_constraints,
              rows = [\<lparr>row_id = 1, from_version = 0, to_version = 3, migrated_at = 1000\<rparr>],
              identity = 2\<rparr>,
      application = [''ONE'', ''TWO'', ''THREE''], locked_elsewhere = []\<rparr>"

definition production :: "string list database host" where
  \<comment> \<open>neither dev nor test; both guards pass; the database does not exist yet\<close>
  "production =
     \<lparr>is_dev = False, is_test = False,
      check_no_scripts_not_locked = None, check_no_locked_scripts_changed = None,
      server = Inr None, createdb = Inr empty_database\<rparr>"

definition development :: "string list database host" where
  "development = production\<lparr>is_dev := True\<rparr>"

text \<open>
  Two processes of one deployment: process \<open>n\<close> runs under \<^verbatim>\<open>PYTHONHASHSEED=n\<close>, on an
  interpreter with SipHash-1-3. In \<open>locked_by_process_1\<close>, process 1 holds the advisory lock
  under its key.
\<close>

definition process_env :: "int \<Rightarrow> (int \<times> path) list \<Rightarrow> string list database environment" where
  "process_env seed directory =
     (example_env directory)\<lparr>lock_key := MIGRATION_LOCK_KEY (siphash 1 3) (secret_of_seed seed)\<rparr>"

definition locked_by_process_1 :: "string list database" where
  "locked_by_process_1 =
     \<lparr>database_migration = None, application = [],
      locked_elsewhere = [MIGRATION_LOCK_KEY (siphash 1 3) (secret_of_seed 1)]\<rparr>"

text \<open>
  A ledger whose latest row, by id, is \<open>(0, 3)\<close> although a row \<open>(3, 5)\<close> is there: the run
  reads version 3, and the row \<open>(3, 5)\<close> it then inserts overlaps the one in the table.
\<close>

definition database_misordered :: "string list database" where
  "database_misordered =
     \<lparr>database_migration =
        Some \<lparr>constraints = ledger_constraints,
              rows = [\<lparr>row_id = 1, from_version = 3, to_version = 5, migrated_at = 100\<rparr>,
                      \<lparr>row_id = 2, from_version = 0, to_version = 3, migrated_at = 200\<rparr>],
              identity = 3\<rparr>,
      application = [''ONE'', ''TWO'', ''THREE''], locked_elsewhere = []\<rparr>"

definition scripts_1_to_5 :: "(int \<times> path) list" where
  "scripts_1_to_5 = [(1, ''1.sql''), (2, ''2.sql''), (3, ''3.sql''), (4, ''4.sql''), (5, ''5.sql'')]"

definition scripts_1_2_3 :: "(int \<times> path) list" where
  "scripts_1_2_3 = [(1, ''1.sql''), (2, ''2.sql''), (3, ''3.sql'')]"

definition scripts_1_3 :: "(int \<times> path) list" where
  "scripts_1_3 = [(1, ''1.sql''), (3, ''3.sql'')]"

definition scripts_bad_3 :: "(int \<times> path) list" where
  "scripts_bad_3 = [(1, ''bad.sql''), (3, ''3.sql'')]"

definition scripts_1_bad_3 :: "(int \<times> path) list" where
  "scripts_1_bad_3 = [(1, ''1.sql''), (2, ''bad.sql''), (3, ''3.sql'')]"

section \<open>The current version\<close>

lemma sort_key_desc_hd:
  assumes "sort_key (\<lambda>r. - row_id r) rs = r # rest"
  shows "r \<in> set rs \<and> (\<forall>r' \<in> set rs. row_id r' \<le> row_id r)"
proof -
  have s: "set (r # rest) = set rs"
    using assms set_sort[of "\<lambda>r. - row_id r" rs] by simp
  have "sorted (map (\<lambda>r. - row_id r) (r # rest))"
    using assms sorted_sort_key[of "\<lambda>r. - row_id r" rs] by simp
  then have "\<forall>r' \<in> set rest. row_id r' \<le> row_id r"
    by auto
  with s show ?thesis by auto
qed

lemma read_current_version_postgres:
  assumes "current s = d" and "database_migration d = Some t"
  shows "fst (read_current_version (postgres scripts) s) =
           Inr (py_or (select_to_version_order_by_id_desc_limit_1 (rows t)) 0)"
  using assms
  by (simp add: read_current_version_def await_def db_get_scalar_def return_def postgres_def
      pg_get_scalar_def logged_def current_def Let_def split: option.splits)



section \<open>Evaluation\<close>

lemmas coroutine_defs =
  await_def return_def raise_def lift_def print_def logged_def current_def store_def
  db_try_transaction_lock_def db_execute_def db_get_scalar_def db_exists_def db_insert_def
  transactional_def begin_transaction_def commit_transaction_def rollback_transaction_def fresh_def

lemmas migrate_defs =
  migrate_def migrate_body_def create_database_migration_table_if_not_exist_def
  read_current_version_def py_or_def getitem_def execute_migration_scripts_def
  execute_migration_scripts_body_def max_key_def upto_rec1

lemmas postgres_defs =
  postgres_def pg_try_transaction_lock_def pg_execute_def pg_get_scalar_def pg_insert_def
  insert_row_def select_to_version_order_by_id_desc_limit_1_def int4_def int8_def
  ledger_constraints_def numrange_overlaps_def MIGRATION_TABLE_def current_version_sql_def
  create_table_sql_def

lemmas example_defs =
  example_env_def example_files_def run_script_def empty_database_def load_versions_spec_def
  read_text_from_def scripts_1_2_3_def scripts_1_3_def scripts_bad_3_def scripts_1_bad_3_def
  locked_database_def scripts_1_to_5_def

lemmas test_defs =
  test_transaction_def func_def func_body_def assert_def pytest_raises_def organization_def
  org_insert_def org_execute_def org_exists_def name_def new_name_def update_sql_def
  select_sql_def delete_sql_def

section \<open>Keeping to the open transaction\<close>

lemma keeps_return: "keeps_transaction (return a)"
  by (simp add: keeps_transaction_def return_def)

lemma keeps_raise: "keeps_transaction (raise e)"
  by (simp add: keeps_transaction_def raise_def)

lemma keeps_lift: "keeps_transaction (lift r)"
  by (simp add: keeps_transaction_def lift_def)

lemma keeps_print: "keeps_transaction (print m)"
  by (simp add: keeps_transaction_def print_def)

lemma keeps_db_try_transaction_lock: "keeps_transaction (db_try_transaction_lock db key)"
  by (auto simp: keeps_transaction_def db_try_transaction_lock_def logged_def store_def current_def Let_def
      split: sum.splits prod.splits option.splits)

lemma keeps_db_execute: "keeps_transaction (db_execute db sql params)"
  by (auto simp: keeps_transaction_def db_execute_def logged_def store_def current_def Let_def
      split: sum.splits prod.splits option.splits)

lemma keeps_db_get_scalar: "keeps_transaction (db_get_scalar db sql params)"
  by (auto simp: keeps_transaction_def db_get_scalar_def logged_def store_def current_def Let_def
      split: sum.splits prod.splits option.splits)

lemma keeps_db_exists: "keeps_transaction (db_exists db sql params)"
  by (auto simp: keeps_transaction_def db_exists_def logged_def store_def current_def Let_def
      split: sum.splits prod.splits option.splits)

lemma keeps_db_insert: "keeps_transaction (db_insert db table kw)"
  by (auto simp: keeps_transaction_def db_insert_def logged_def store_def current_def Let_def
      split: sum.splits prod.splits option.splits)

lemma keeps_await:
  assumes "keeps_transaction m" and "\<And>a. keeps_transaction (f a)"
  shows "keeps_transaction (await m f)"
  unfolding keeps_transaction_def
proof (intro allI impI)
  fix s :: "'a session"
  assume open_tx: "transaction s \<noteq> None"
  obtain r s1 where ms: "m s = (r, s1)" by (cases "m s")
  from assms(1) open_tx ms have k1: "committed s1 = committed s \<and> transaction s1 \<noteq> None"
    by (auto simp: keeps_transaction_def dest!: spec[of _ s])
  show "committed (snd (await m f s)) = committed s \<and> transaction (snd (await m f s)) \<noteq> None"
  proof (cases r)
    case (Inl e)
    with ms k1 show ?thesis by (simp add: await_def)
  next
    case (Inr a)
    from assms(2)[of a] k1
    have "committed (snd (f a s1)) = committed s1 \<and> transaction (snd (f a s1)) \<noteq> None"
      by (simp add: keeps_transaction_def)
    with Inr ms k1 show ?thesis by (simp add: await_def)
  qed
qed

lemma keeps_if:
  "keeps_transaction m \<Longrightarrow> keeps_transaction n \<Longrightarrow> keeps_transaction (if b then m else n)"
  by simp

lemma keeps_transactional:
  "keeps_transaction f \<Longrightarrow> keeps_transaction (transactional f)"
  by (auto simp: keeps_transaction_def transactional_def split: option.splits)

lemma keeps_apply_versions: "keeps_transaction (apply_versions env versions vs)"
  by (induction vs) (auto intro!: keeps_await keeps_return keeps_print keeps_lift keeps_db_execute)

lemma keeps_execute_migration_scripts:
  "keeps_transaction (execute_migration_scripts env f t versions)"
  unfolding execute_migration_scripts_def execute_migration_scripts_body_def
  by (intro keeps_transactional keeps_await keeps_apply_versions keeps_db_insert)

lemma keeps_migrate_body: "keeps_transaction (migrate_body env db_name)"
  unfolding migrate_body_def create_database_migration_table_if_not_exist_def
    read_current_version_def Let_def
  by (intro keeps_await keeps_if keeps_print keeps_lift keeps_return keeps_db_try_transaction_lock
      keeps_db_execute keeps_db_get_scalar keeps_execute_migration_scripts)

lemma keeps_func_body: "keeps_transaction (func_body db raise_exception)"
  unfolding func_body_def
  by (intro keeps_await keeps_if keeps_raise keeps_db_insert keeps_db_execute)

lemma begin_transaction_simps:
  "transaction (begin_transaction s) = Some (committed s)"
  "committed (begin_transaction s) = committed s"
  "calls (begin_transaction s) = calls s @ [Begin]"
  "stdout (begin_transaction s) = stdout s"
  by (simp_all add: begin_transaction_def logged_def)

lemma transactional_outcome:
  assumes "transaction s = None"
  shows "transactional f s =
     (case f (begin_transaction s) of
        (Inl e, s') \<Rightarrow> (Inl e, rollback_transaction s')
      | (Inr r, s') \<Rightarrow> (Inr r, commit_transaction s'))"
  using assms by (simp add: transactional_def)

lemma keeps_after_begin:
  assumes "keeps_transaction f" and "f (begin_transaction s) = (r, s1)"
  shows "committed s1 = committed s \<and> transaction s1 \<noteq> None"
proof -
  from assms(1)
  have "committed (snd (f (begin_transaction s))) = committed (begin_transaction s) \<and>
        transaction (snd (f (begin_transaction s))) \<noteq> None"
    by (simp add: keeps_transaction_def begin_transaction_simps)
  with assms(2) show ?thesis by (simp add: begin_transaction_simps)
qed

lemma transactional_failure:
  assumes "transaction s = None" and "keeps_transaction f" and "transactional f s = (Inl e, s')"
  shows "committed s' = committed s \<and> transaction s' = None \<and> fst (f (begin_transaction s)) = Inl e"
proof -
  obtain r s1 where fs: "f (begin_transaction s) = (r, s1)" by (cases "f (begin_transaction s)")
  from keeps_after_begin[OF assms(2) fs] have c: "committed s1 = committed s" by simp
  from assms(1,3) fs have "r = Inl e \<and> s' = rollback_transaction s1"
    by (auto simp: transactional_outcome split: sum.splits)
  with c fs show ?thesis by (simp add: rollback_transaction_def logged_def)
qed

section \<open>Commit, rollback and nesting\<close>

text \<open>
  C9. Let \<open>f\<close> and \<open>g\<close> be functions that reach the database through the client. Called on
  a connection with no open transaction, \<open>transactional f\<close> begins one and runs \<open>f\<close> in it:
  when \<open>f\<close> returns, the state \<open>f\<close> left becomes the committed state; when \<open>f\<close> raises,
  the committed state is the one before the call and the same failure is raised. Called
  while a transaction is open, \<open>transactional f\<close> is \<open>f\<close> itself, with no begin and no commit
  of its own; so when a wrapped \<open>g\<close> calls a wrapped \<open>f\<close> and \<open>f\<close> raises, the failure
  reaches the outer call and the writes of \<open>g\<close> are rolled back with those of \<open>f\<close>.
\<close>

theorem transactional_commits_or_rolls_back:
  assumes "keeps_transaction f" and "keeps_transaction g"
  shows
    "(transaction s = None \<longrightarrow>
        (\<forall>r s1. f (begin_transaction s) = (Inr r, s1) \<longrightarrow>
           transactional f s = (Inr r, commit_transaction s1) \<and>
           committed (commit_transaction s1) = current s1 \<and>
           transaction (commit_transaction s1) = None) \<and>
        (\<forall>e s1. f (begin_transaction s) = (Inl e, s1) \<longrightarrow>
           transactional f s = (Inl e, rollback_transaction s1) \<and>
           committed (rollback_transaction s1) = committed s \<and>
           transaction (rollback_transaction s1) = None) \<and>
        (\<forall>a s1 e s2. g (begin_transaction s) = (Inr a, s1) \<and> f s1 = (Inl e, s2) \<longrightarrow>
           transactional (await g (\<lambda>_. transactional f)) s = (Inl e, rollback_transaction s2) \<and>
           committed (rollback_transaction s2) = committed s)) \<and>
     (transaction s \<noteq> None \<longrightarrow> transactional f s = f s)"
proof (intro conjI impI allI)
  fix r s1
  assume "transaction s = None" and "f (begin_transaction s) = (Inr r, s1)"
  then show "transactional f s = (Inr r, commit_transaction s1)"
    by (simp add: transactional_outcome)
  show "committed (commit_transaction s1) = current s1"
    by (simp add: commit_transaction_def logged_def)
  show "transaction (commit_transaction s1) = None"
    by (simp add: commit_transaction_def logged_def)
next
  fix e s1
  assume n: "transaction s = None" and fs: "f (begin_transaction s) = (Inl e, s1)"
  then show "transactional f s = (Inl e, rollback_transaction s1)"
    by (simp add: transactional_outcome)
  from keeps_after_begin[OF assms(1) fs]
  show "committed (rollback_transaction s1) = committed s"
    by (simp add: rollback_transaction_def logged_def)
  show "transaction (rollback_transaction s1) = None"
    by (simp add: rollback_transaction_def logged_def)
next
  fix a s1 e s2
  assume n: "transaction s = None"
    and gf: "g (begin_transaction s) = (Inr a, s1) \<and> f s1 = (Inl e, s2)"
  from keeps_after_begin[OF assms(2), of s "Inr a" s1] gf
  have k1: "committed s1 = committed s \<and> transaction s1 \<noteq> None" by simp
  then have inner: "transactional f s1 = f s1"
    by (auto simp: transactional_def split: option.splits)
  from assms(1) k1 have "committed (snd (f s1)) = committed s1"
    by (simp add: keeps_transaction_def)
  with gf k1 have k2: "committed s2 = committed s" by simp
  from gf inner have "await g (\<lambda>_. transactional f) (begin_transaction s) = (Inl e, s2)"
    by (simp add: await_def)
  with n show "transactional (await g (\<lambda>_. transactional f)) s = (Inl e, rollback_transaction s2)"
    by (simp add: transactional_outcome)
  from k2 show "committed (rollback_transaction s2) = committed s"
    by (simp add: rollback_transaction_def logged_def)
next
  assume "transaction s \<noteq> None"
  then show "transactional f s = f s"
    by (auto simp: transactional_def split: option.splits)
qed

theorem transactional_commits_or_rolls_back_witness:
  "transactional (func_body organization False) (fresh [''ACME'']) =
     (Inr (), \<lparr>committed = [''ACME'', ''NEW-ORG#1''], transaction = None,
        calls = [Begin,
          Insert ''organization'' [(''conflict_target'', PyStr ''(name)''),
            (''conflict_action'', PyStr ''DO NOTHING''), (''name'', PyStr ''ORG#1'')],
          Execute update_sql [(''name'', PyStr ''ORG#1''), (''new_name'', PyStr ''NEW-ORG#1'')],
          Commit],
        stdout = []\<rparr>) \<and>
   transactional (await (func_body organization False) (\<lambda>_. transactional (func_body organization True)))
       (fresh [''ACME'']) =
     (Inl Exception, \<lparr>committed = [''ACME''], transaction = None,
        calls = [Begin,
          Insert ''organization'' [(''conflict_target'', PyStr ''(name)''),
            (''conflict_action'', PyStr ''DO NOTHING''), (''name'', PyStr ''ORG#1'')],
          Execute update_sql [(''name'', PyStr ''ORG#1''), (''new_name'', PyStr ''NEW-ORG#1'')],
          Insert ''organization'' [(''conflict_target'', PyStr ''(name)''),
            (''conflict_action'', PyStr ''DO NOTHING''), (''name'', PyStr ''ORG#1'')],
          Rollback],
        stdout = []\<rparr>)"
proof -
  let ?s = "fresh [''ACME'']"
  let ?s1 = "\<lparr>committed = [''ACME''], transaction = Some [''ACME'', ''NEW-ORG#1''],
        calls = [Begin,
          Insert ''organization'' [(''conflict_target'', PyStr ''(name)''),
            (''conflict_action'', PyStr ''DO NOTHING''), (''name'', PyStr ''ORG#1'')],
          Execute update_sql [(''name'', PyStr ''ORG#1''), (''new_name'', PyStr ''NEW-ORG#1'')]],
        stdout = []\<rparr>"
  let ?s2 = "\<lparr>committed = [''ACME''], transaction = Some [''ACME'', ''NEW-ORG#1'', ''ORG#1''],
        calls = [Begin,
          Insert ''organization'' [(''conflict_target'', PyStr ''(name)''),
            (''conflict_action'', PyStr ''DO NOTHING''), (''name'', PyStr ''ORG#1'')],
          Execute update_sql [(''name'', PyStr ''ORG#1''), (''new_name'', PyStr ''NEW-ORG#1'')],
          Insert ''organization'' [(''conflict_target'', PyStr ''(name)''),
            (''conflict_action'', PyStr ''DO NOTHING''), (''name'', PyStr ''ORG#1'')]],
        stdout = []\<rparr>"
  have n: "transaction ?s = None"
    by (simp add: fresh_def)
  have ok: "func_body organization False (begin_transaction ?s) = (Inr (), ?s1)"
    by (simp add: test_defs coroutine_defs)
  have bad: "func_body organization True ?s1 = (Inl Exception, ?s2)"
    by (simp add: test_defs coroutine_defs)
  note t = transactional_commits_or_rolls_back[OF keeps_func_body[of organization False]
      keeps_func_body[of organization False], of ?s]
  note u = transactional_commits_or_rolls_back[OF keeps_func_body[of organization True]
      keeps_func_body[of organization False], of ?s]
  from t n ok have a: "transactional (func_body organization False) ?s = (Inr (), commit_transaction ?s1)"
    by blast
  from u n ok bad
  have b: "transactional (await (func_body organization False) (\<lambda>_. transactional (func_body organization True))) ?s
      = (Inl Exception, rollback_transaction ?s2)"
    by blast
  show ?thesis
    unfolding a b by (simp add: coroutine_defs)
qed

text \<open>The test passes on every table that holds neither of its two names.\<close>

lemma rename_then_delete:
  "n \<notin> set d \<Longrightarrow> m \<notin> set d \<Longrightarrow>
   filter (\<lambda>x. x \<noteq> m) (map (\<lambda>x. if x = n then m else x) d) = d"
  by (induction d) auto

lemma test_transaction_passes:
  assumes "name \<notin> set d" and "new_name \<notin> set d"
  shows "fst (test_transaction organization (fresh d)) = Inr () \<and>
         committed (snd (test_transaction organization (fresh d))) = d"
  using assms
  by (simp add: test_defs coroutine_defs rename_then_delete)

section \<open>A failed run\<close>

text \<open>
  C1. A run of \<^verbatim>\<open>_migrate\<close> on a connection with no open transaction that raises a failure,
  whatever the client, the loader and the files do, leaves the committed database as it
  was before the run: \<open>currentVersion\<close> and the rows of the ledger are unchanged, no
  transaction stays open, and the failure the caller sees is the one the body raised.
\<close>

theorem migrate_failure_rolls_back:
  assumes "transaction s = None" and "migrate env db_name s = (Inl e, s')"
  shows "committed s' = committed s \<and> transaction s' = None \<and>
         currentVersion (committed s') = currentVersion (committed s) \<and>
         ledger (committed s') = ledger (committed s) \<and>
         fst (migrate_body env db_name (begin_transaction s)) = Inl e"
  using transactional_failure[OF assms(1) keeps_migrate_body, of env db_name e s'] assms(2)
  by (simp add: migrate_def)

lemma migrate_1_bad_3:
  "migrate (example_env scripts_1_bad_3) ''fas'' (fresh empty_database) =
     (Inl (PostgresError ''BROKEN''),
      \<lparr>committed = empty_database, transaction = None,
        calls = [Begin, TryTransactionLock 42, Execute create_table_sql [], GetScalar current_version_sql [],
          Execute ''ONE'' [], Execute ''BROKEN'' [], Rollback],
        stdout = [Be_about_to_migrate ''fas'' 0 3, Applying_version 1, Applying_version 2]\<rparr>)"
  by (simp add: migrate_defs coroutine_defs postgres_defs example_defs)

theorem migrate_failure_rolls_back_witness:
  "fst (migrate (example_env scripts_1_bad_3) ''fas'' (fresh empty_database)) = Inl (PostgresError ''BROKEN'') \<and>
   committed (snd (migrate (example_env scripts_1_bad_3) ''fas'' (fresh empty_database))) = empty_database \<and>
   ledger (committed (snd (migrate (example_env scripts_1_bad_3) ''fas'' (fresh empty_database)))) = [] \<and>
   fst (migrate_body (example_env scripts_1_bad_3) ''fas'' (begin_transaction (fresh empty_database))) =
     Inl (PostgresError ''BROKEN'')"
proof -
  have n: "transaction (fresh empty_database) = None"
    by (simp add: fresh_def)
  from migrate_failure_rolls_back[OF n migrate_1_bad_3]
  have body: "fst (migrate_body (example_env scripts_1_bad_3) ''fas'' (begin_transaction (fresh empty_database))) =
      Inl (PostgresError ''BROKEN'')"
    by blast
  show ?thesis
    unfolding migrate_1_bad_3 using body by (simp add: ledger_def empty_database_def)
qed

text \<open>
  A failure of the table creation, of the version read or of the loader is the failure of
  the run, for every client; so is the failure of a script (the witness above) and of the
  insert (below, after two scripts were executed).
\<close>

lemma migrate_step_failures:
  assumes "transaction s = None"
    and "try_transaction_lock (client env) (lock_key env) (committed s) = Inr (True, w1)"
  shows "(execute (client env) create_table_sql [] w1 = Inl e \<longrightarrow>
            fst (migrate env db_name s) = Inl e \<and> committed (snd (migrate env db_name s)) = committed s) \<and>
         (execute (client env) create_table_sql [] w1 = Inr w2 \<and>
          get_scalar (client env) current_version_sql [] w2 = Inl e \<longrightarrow>
            fst (migrate env db_name s) = Inl e \<and> committed (snd (migrate env db_name s)) = committed s) \<and>
         (execute (client env) create_table_sql [] w1 = Inr w2 \<and>
          get_scalar (client env) current_version_sql [] w2 = Inr (v, w3) \<and>
          load_versions env (py_or v 0) = Inl e \<longrightarrow>
            fst (migrate env db_name s) = Inl e \<and> committed (snd (migrate env db_name s)) = committed s)"
  using assms
  by (simp add: migrate_def migrate_body_def create_database_migration_table_if_not_exist_def
      read_current_version_def coroutine_defs)

lemma migrate_insert_rejected:
  "migrate (example_env scripts_1_to_5) ''fas'' (fresh database_misordered) =
     (Inl ExclusionViolation,
      \<lparr>committed = database_misordered, transaction = None,
        calls = [Begin, TryTransactionLock 42, Execute create_table_sql [], GetScalar current_version_sql [],
          Execute ''FOUR'' [], Execute ''FIVE'' [],
          Insert ''database_migration'' (ledger_row 3 5 1000), Rollback],
        stdout = [Be_about_to_migrate ''fas'' 3 5, Applying_version 4, Applying_version 5]\<rparr>)"
  by (simp add: migrate_defs coroutine_defs postgres_defs example_defs ledger_row_def
      database_misordered_def)

section \<open>A run that does not get the lock\<close>

text \<open>
  C4. When the lock attempt of \<^verbatim>\<open>_migrate\<close> returns false, the run returns normally, and the
  only calls it makes on the connection are the lock attempt and, on a connection with no
  open transaction, the begin and the commit of its own transaction around it: it executes
  no statement and inserts no row, and the database is in the state in which the lock
  attempt left it. It prints that it did not migrate.
\<close>

theorem lock_not_acquired_no_writes:
  assumes "try_transaction_lock (client env) (lock_key env) (current s) = Inr (False, w)"
  shows "fst (migrate env db_name s) = Inr () \<and>
         calls (snd (migrate env db_name s)) =
           calls s @ (if transaction s = None
                      then [Begin, TryTransactionLock (lock_key env), Commit]
                      else [TryTransactionLock (lock_key env)]) \<and>
         stdout (snd (migrate env db_name s)) = stdout s @ [Did_not_migrate_parallel db_name] \<and>
         current (snd (migrate env db_name s)) = w"
  using assms
  by (cases "transaction s") (simp_all add: migrate_def migrate_body_def coroutine_defs)

theorem lock_not_acquired_no_writes_witness:
  "fst (migrate (example_env scripts_1_2_3) ''fas'' (fresh locked_database)) = Inr () \<and>
   calls (snd (migrate (example_env scripts_1_2_3) ''fas'' (fresh locked_database))) =
     [Begin, TryTransactionLock 42, Commit] \<and>
   stdout (snd (migrate (example_env scripts_1_2_3) ''fas'' (fresh locked_database))) =
     [Did_not_migrate_parallel ''fas''] \<and>
   committed (snd (migrate (example_env scripts_1_2_3) ''fas'' (fresh locked_database))) = locked_database"
proof -
  have l: "try_transaction_lock (client (example_env scripts_1_2_3)) (lock_key (example_env scripts_1_2_3))
             (current (fresh locked_database)) = Inr (False, locked_database)"
    by (simp add: example_defs postgres_defs coroutine_defs)
  have c: "committed (snd (migrate (example_env scripts_1_2_3) ''fas'' (fresh locked_database))) =
           current (snd (migrate (example_env scripts_1_2_3) ''fas'' (fresh locked_database)))"
    by (simp add: migrate_defs coroutine_defs postgres_defs example_defs)
  from lock_not_acquired_no_writes[OF l, of "''fas''"] c show ?thesis
    by (simp add: fresh_def example_env_def)
qed

section \<open>The constraints of the ledger table\<close>









section \<open>A successful run\<close>

lemma max_key_Max: "versions \<noteq> [] \<Longrightarrow> max_key versions = Max (fst ` set versions)"
proof -
  assume "versions \<noteq> []"
  then obtain x xs where v: "versions = x # xs" by (cases versions) auto
  have "Max (set (fst x # map fst xs)) = fold max (map fst xs) (fst x)"
    by (rule Max.set_eq_fold)
  with v show ?thesis by (simp add: max_key_def)
qed

lemma ledger_ensure_table: "ledger (ensure_table d) = ledger d"
  by (simp add: ledger_def ensure_table_def split: option.splits)

lemma ensure_table_Some: "\<exists>t. database_migration (ensure_table d) = Some t \<and> rows t = ledger d"
  by (simp add: ledger_def ensure_table_def split: option.splits)

lemma migrate_body_prefix:
  assumes "client env = postgres scripts" and "transaction s = Some w"
    and "int8 (lock_key env)" and "lock_key env \<notin> set (locked_elsewhere w)"
  shows "migrate_body env db_name s =
     (let s3 = s\<lparr>calls := calls s @ [TryTransactionLock (lock_key env), Execute create_table_sql [],
                                     GetScalar current_version_sql []],
                 transaction := Some (ensure_table w)\<rparr>;
          current_version = version_of w
      in case load_versions env current_version of
           Inl e \<Rightarrow> (Inl e, s3)
         | Inr new_versions \<Rightarrow>
             if new_versions = [] then print (Did_not_migrate_no_scripts db_name current_version) s3
             else
               await (print (Be_about_to_migrate db_name current_version (max_key new_versions))) (\<lambda>_.
               await (execute_migration_scripts env current_version (max_key new_versions) new_versions) (\<lambda>_.
               print (Migrated db_name current_version (max_key new_versions)))) s3)"
proof (cases "database_migration w")
  case None
  with assms show ?thesis
    by (simp add: migrate_body_def create_database_migration_table_if_not_exist_def read_current_version_def
      await_def return_def lift_def logged_def current_def store_def Let_def
      db_try_transaction_lock_def db_execute_def db_get_scalar_def
      postgres_def pg_try_transaction_lock_def pg_execute_def pg_get_scalar_def
      ensure_table_def version_of_def ledger_def split: sum.split)
next
  case (Some t)
  with assms show ?thesis
    by (simp add: migrate_body_def create_database_migration_table_if_not_exist_def read_current_version_def
      await_def return_def lift_def logged_def current_def store_def Let_def
      db_try_transaction_lock_def db_execute_def db_get_scalar_def
      postgres_def pg_try_transaction_lock_def pg_execute_def pg_get_scalar_def
      ensure_table_def version_of_def ledger_def split: sum.split)
qed


lemma pg_execute_keeps_ledger:
  assumes "pg_execute scripts sql params w = Inr w1" and "database_migration w = Some t"
  shows "database_migration w1 = Some t \<and> locked_elsewhere w1 = locked_elsewhere w"
  using assms by (auto simp: pg_execute_def split: if_splits sum.splits)

lemma apply_versions_step:
  assumes "apply_versions env versions (v # vs) s = (Inr (), s')"
    and "client env = postgres scripts" and "transaction s = Some w"
  shows "\<exists>sql w1. script_of env versions v = Inr sql \<and> pg_execute scripts sql [] w = Inr w1 \<and>
           apply_versions env versions vs
             (s\<lparr>stdout := stdout s @ [Applying_version v], calls := calls s @ [Execute sql []],
                transaction := Some w1\<rparr>) = (Inr (), s')"
  using assms
  by (auto simp: await_def print_def lift_def db_execute_def logged_def current_def store_def
      script_of_def postgres_def Let_def split: sum.splits prod.splits)

lemma apply_versions_postgres_success:
  assumes "client env = postgres scripts"
  shows "transaction s = Some w \<Longrightarrow> database_migration w = Some t \<Longrightarrow>
     apply_versions env versions vs s = (Inr (), s') \<Longrightarrow>
     \<exists>sqls w'. list_all2 (\<lambda>v sql. script_of env versions v = Inr sql) vs sqls \<and>
        committed s' = committed s \<and> transaction s' = Some w' \<and>
        calls s' = calls s @ map (\<lambda>sql. Execute sql []) sqls \<and>
        stdout s' = stdout s @ map Applying_version vs \<and>
        database_migration w' = Some t \<and> locked_elsewhere w' = locked_elsewhere w"
proof (induction vs arbitrary: s w)
  case Nil
  then show ?case by (simp add: return_def)
next
  case (Cons v vs)
  from apply_versions_step[OF Cons.prems(3) assms Cons.prems(1)]
  obtain sql w1 where st: "script_of env versions v = Inr sql"
    and ex: "pg_execute scripts sql [] w = Inr w1"
    and rest: "apply_versions env versions vs
             (s\<lparr>stdout := stdout s @ [Applying_version v], calls := calls s @ [Execute sql []],
                transaction := Some w1\<rparr>) = (Inr (), s')"
    by blast
  let ?s1 = "s\<lparr>stdout := stdout s @ [Applying_version v], calls := calls s @ [Execute sql []],
                transaction := Some w1\<rparr>"
  from pg_execute_keeps_ledger[OF ex Cons.prems(2)]
  have k: "database_migration w1 = Some t" and l: "locked_elsewhere w1 = locked_elsewhere w" by simp_all
  have "transaction ?s1 = Some w1" by simp
  from Cons.IH[OF this k rest]
  obtain sqls w' where ih: "list_all2 (\<lambda>v sql. script_of env versions v = Inr sql) vs sqls"
    "committed s' = committed ?s1" "transaction s' = Some w'"
    "calls s' = calls ?s1 @ map (\<lambda>sql. Execute sql []) sqls"
    "stdout s' = stdout ?s1 @ map Applying_version vs"
    "database_migration w' = Some t" "locked_elsewhere w' = locked_elsewhere w1"
    by blast
  have "list_all2 (\<lambda>v sql. script_of env versions v = Inr sql) (v # vs) (sql # sqls) \<and>
        committed s' = committed s \<and> transaction s' = Some w' \<and>
        calls s' = calls s @ map (\<lambda>sql. Execute sql []) (sql # sqls) \<and>
        stdout s' = stdout s @ map Applying_version (v # vs) \<and>
        database_migration w' = Some t \<and> locked_elsewhere w' = locked_elsewhere w"
    using ih st l by simp
  then show ?case by blast
qed


lemma insert_row_Inr:
  assumes "insert_row t f v m = Inr t'"
  shows "t' = t\<lparr>rows := rows t @ [\<lparr>row_id = identity t, from_version = f, to_version = v, migrated_at = m\<rparr>],
                 identity := identity t + 1\<rparr>"
  using assms by (auto simp: insert_row_def Let_def split: if_splits option.splits)

lemma execute_migration_scripts_postgres_success:
  assumes "client env = postgres scripts" and "transaction s = Some w"
    and "database_migration w = Some t"
    and "execute_migration_scripts env f v versions s = (Inr (), s')"
  shows "\<exists>sqls w' t'. list_all2 (\<lambda>v sql. script_of env versions v = Inr sql) [f + 1 .. v] sqls \<and>
        committed s' = committed s \<and> transaction s' = Some w' \<and>
        calls s' = calls s @ map (\<lambda>sql. Execute sql []) sqls @
                    [Insert ''database_migration'' (ledger_row f v (now env))] \<and>
        stdout s' = stdout s @ map Applying_version [f + 1 .. v] \<and>
        database_migration w' = Some t' \<and> insert_row t f v (now env) = Inr t' \<and>
        locked_elsewhere w' = locked_elsewhere w"
proof -
  from assms(2,4) have b: "execute_migration_scripts_body env f v versions s = (Inr (), s')"
    by (simp add: execute_migration_scripts_def transactional_def)
  then obtain s1 where a: "apply_versions env versions [f + 1 .. v] s = (Inr (), s1)"
    and i: "db_insert (client env) ''database_migration'' (ledger_row f v (now env)) s1 = (Inr (), s')"
    by (auto simp: execute_migration_scripts_body_def await_def ledger_row_def split: sum.splits prod.splits)
  from apply_versions_postgres_success[OF assms(1,2,3) a]
  obtain sqls w1 where ih: "list_all2 (\<lambda>v sql. script_of env versions v = Inr sql) [f + 1 .. v] sqls"
    "committed s1 = committed s" "transaction s1 = Some w1"
    "calls s1 = calls s @ map (\<lambda>sql. Execute sql []) sqls"
    "stdout s1 = stdout s @ map Applying_version [f + 1 .. v]"
    "database_migration w1 = Some t" "locked_elsewhere w1 = locked_elsewhere w"
    by blast
  from i ih(3,6) assms(1) obtain t' where r: "insert_row t f v (now env) = Inr t'"
    and s': "s' = (logged (Insert ''database_migration'' (ledger_row f v (now env))) s1)
                    \<lparr>transaction := Some (w1\<lparr>database_migration := Some t'\<rparr>)\<rparr>"
    by (auto simp: db_insert_def postgres_def pg_insert_def ledger_row_def MIGRATION_TABLE_def
        logged_def current_def store_def Let_def split: sum.splits)
  have "list_all2 (\<lambda>v sql. script_of env versions v = Inr sql) [f + 1 .. v] sqls \<and>
        committed s' = committed s \<and> transaction s' = Some (w1\<lparr>database_migration := Some t'\<rparr>) \<and>
        calls s' = calls s @ map (\<lambda>sql. Execute sql []) sqls @
                    [Insert ''database_migration'' (ledger_row f v (now env))] \<and>
        stdout s' = stdout s @ map Applying_version [f + 1 .. v] \<and>
        database_migration (w1\<lparr>database_migration := Some t'\<rparr>) = Some t' \<and>
        insert_row t f v (now env) = Inr t' \<and>
        locked_elsewhere (w1\<lparr>database_migration := Some t'\<rparr>) = locked_elsewhere w"
    using ih r s' by (simp add: logged_def)
  then show ?thesis by blast
qed

lemma select_latest_append:
  assumes "list_all (\<lambda>r'. row_id r' < row_id r) rs"
  shows "select_to_version_order_by_id_desc_limit_1 (rs @ [r]) = Some (to_version r)"
proof (cases "sort_key (\<lambda>r. - row_id r) (rs @ [r])")
  case Nil
  then show ?thesis
    using length_sort[of "\<lambda>r. - row_id r" "rs @ [r]"] by simp
next
  case (Cons h rest)
  from sort_key_desc_hd[OF Cons]
  have h: "h \<in> set (rs @ [r])" and top: "\<forall>r' \<in> set (rs @ [r]). row_id r' \<le> row_id h" by simp_all
  from top have "row_id r \<le> row_id h" by simp
  with assms h have "h = r" by (auto simp: list_all_iff)
  with Cons show ?thesis by (simp add: select_to_version_order_by_id_desc_limit_1_def)
qed

lemma py_or_Some_0: "py_or (Some v) 0 = v"
  by (simp add: py_or_def)

lemma currentVersion_eq:
  assumes "database_migration d = Some t"
  shows "currentVersion d = Inr (version_of d)"
  using read_current_version_postgres[of "fresh d" d t "\<lambda>_. Inr"] assms
  by (simp add: currentVersion_def version_of_def ledger_def fresh_def current_def)

lemma migrate_body_bad_key:
  assumes "client env = postgres scripts" and "transaction s = Some w" and "\<not> int8 (lock_key env)"
  shows "fst (migrate_body env db_name s) = Inl NumericValueOutOfRange"
  using assms
  by (simp add: migrate_body_def await_def db_try_transaction_lock_def logged_def current_def
      postgres_def pg_try_transaction_lock_def)


lemma ensure_table_ahead:
  assumes "sequence_ahead d"
  shows "\<exists>t. database_migration (ensure_table d) = Some t \<and> rows t = ledger d \<and>
             list_all (\<lambda>r. row_id r < identity t) (rows t)"
  using assms by (auto simp: sequence_ahead_def ensure_table_def ledger_def split: option.splits)

lemma locked_ensure_table: "locked_elsewhere (ensure_table d) = locked_elsewhere d"
  by (simp add: ensure_table_def split: option.splits)

lemma migrate_applies_pending:
  assumes "client env = postgres scripts" and "transaction s = None"
    and "lock_key env \<notin> set (locked_elsewhere (committed s))"
    and "sequence_ahead (committed s)"
    and "load_versions env (version_of (committed s)) = Inr pending" and "pending \<noteq> []"
    and "migrate env db_name s = (Inr (), s')"
  shows "currentVersion (committed s') = Inr (Max (fst ` set pending)) \<and>
         (\<exists>i. ledger (committed s') = ledger (committed s) @
                 [\<lparr>row_id = i, from_version = version_of (committed s),
                   to_version = Max (fst ` set pending), migrated_at = now env\<rparr>]) \<and>
         (\<exists>sqls. list_all2 (\<lambda>v sql. script_of env pending v = Inr sql)
                    [version_of (committed s) + 1 .. Max (fst ` set pending)] sqls \<and>
            calls s' = calls s @ [Begin, TryTransactionLock (lock_key env), Execute create_table_sql [],
                                  GetScalar current_version_sql []] @
                       map (\<lambda>sql. Execute sql []) sqls @
                       [Insert ''database_migration''
                          (ledger_row (version_of (committed s)) (Max (fst ` set pending)) (now env)),
                        Commit]) \<and>
         stdout s' = stdout s @
           [Be_about_to_migrate db_name (version_of (committed s)) (Max (fst ` set pending))] @
           map Applying_version [version_of (committed s) + 1 .. Max (fst ` set pending)] @
           [Migrated db_name (version_of (committed s)) (Max (fst ` set pending))] \<and>
         version_of (committed s') = Max (fst ` set pending) \<and>
         database_migration (committed s') \<noteq> None \<and>
         locked_elsewhere (committed s') = locked_elsewhere (committed s) \<and>
         sequence_ahead (committed s') \<and> int8 (lock_key env)"
proof -
  let ?w = "committed s"
  let ?cur = "version_of ?w"
  let ?mx = "max_key pending"
  let ?s0 = "begin_transaction s"
  have mx: "?mx = Max (fst ` set pending)"
    using assms(6) by (rule max_key_Max)
  have tx0: "transaction ?s0 = Some ?w"
    by (simp add: begin_transaction_simps)
  obtain sb where body: "migrate_body env db_name ?s0 = (Inr (), sb)"
    and s': "s' = commit_transaction sb"
    using assms(2,7)
    by (auto simp: migrate_def transactional_outcome split: sum.splits prod.splits)
  have key: "int8 (lock_key env)"
  proof (rule ccontr)
    assume "\<not> int8 (lock_key env)"
    from migrate_body_bad_key[OF assms(1) tx0 this, of db_name] body show False by simp
  qed
  let ?s3 = "?s0\<lparr>calls := calls ?s0 @ [TryTransactionLock (lock_key env), Execute create_table_sql [],
                                        GetScalar current_version_sql []],
                  transaction := Some (ensure_table ?w)\<rparr>"
  let ?s4 = "?s3\<lparr>stdout := stdout ?s3 @ [Be_about_to_migrate db_name ?cur ?mx]\<rparr>"
  from migrate_body_prefix[OF assms(1) tx0 key assms(3), of db_name] assms(5,6) body
  have "await (print (Be_about_to_migrate db_name ?cur ?mx)) (\<lambda>_.
          await (execute_migration_scripts env ?cur ?mx pending) (\<lambda>_.
          print (Migrated db_name ?cur ?mx))) ?s3 = (Inr (), sb)"
    by (simp add: Let_def)
  then obtain s5 where ems: "execute_migration_scripts env ?cur ?mx pending ?s4 = (Inr (), s5)"
    and sb: "sb = s5\<lparr>stdout := stdout s5 @ [Migrated db_name ?cur ?mx]\<rparr>"
    by (auto simp: await_def print_def split: sum.splits prod.splits)
  from ensure_table_ahead[OF assms(4)]
  obtain t where t: "database_migration (ensure_table ?w) = Some t" and rt: "rows t = ledger ?w"
    and ahead: "list_all (\<lambda>r. row_id r < identity t) (rows t)"
    by blast
  have tx4: "transaction ?s4 = Some (ensure_table ?w)" by simp
  from execute_migration_scripts_postgres_success[OF assms(1) tx4 t ems]
  obtain sqls w' t' where r:
    "list_all2 (\<lambda>v sql. script_of env pending v = Inr sql) [?cur + 1 .. ?mx] sqls"
    "committed s5 = committed ?s4" "transaction s5 = Some w'"
    "calls s5 = calls ?s4 @ map (\<lambda>sql. Execute sql []) sqls @
                    [Insert ''database_migration'' (ledger_row ?cur ?mx (now env))]"
    "stdout s5 = stdout ?s4 @ map Applying_version [?cur + 1 .. ?mx]"
    "database_migration w' = Some t'" "insert_row t ?cur ?mx (now env) = Inr t'"
    "locked_elsewhere w' = locked_elsewhere (ensure_table ?w)"
    by blast
  let ?r = "\<lparr>row_id = identity t, from_version = ?cur, to_version = ?mx, migrated_at = now env\<rparr>"
  from insert_row_Inr[OF r(7)] have rows': "rows t' = rows t @ [?r]" by simp
  have c': "committed s' = w'"
    using s' sb r(3) by (simp add: commit_transaction_def logged_def current_def)
  have led: "ledger (committed s') = ledger ?w @ [?r]"
    using c' r(6) rows' rt by (simp add: ledger_def)
  have "select_to_version_order_by_id_desc_limit_1 (rows t @ [?r]) = Some (to_version ?r)"
    using ahead by (intro select_latest_append) simp
  then have vo: "version_of w' = ?mx"
    using r(6) rows' by (simp add: version_of_def ledger_def py_or_Some_0)
  with currentVersion_eq[OF r(6)] c' have cv: "currentVersion (committed s') = Inr ?mx" by simp
  have lk: "locked_elsewhere (committed s') = locked_elsewhere ?w"
    using c' r(8) by (simp add: locked_ensure_table)
  have tb: "database_migration (committed s') \<noteq> None"
    using c' r(6) by simp
  have "list_all (\<lambda>r. row_id r < identity t') (rows t')"
    using insert_row_Inr[OF r(7)] ahead by (auto simp: list_all_iff)
  then have sa: "sequence_ahead (committed s')"
    using c' r(6) by (simp add: sequence_ahead_def)
  have cl: "calls s' = calls s @ [Begin, TryTransactionLock (lock_key env), Execute create_table_sql [],
                                  GetScalar current_version_sql []] @
                       map (\<lambda>sql. Execute sql []) sqls @
                       [Insert ''database_migration'' (ledger_row ?cur ?mx (now env)), Commit]"
    using s' sb r(4) by (simp add: commit_transaction_def logged_def begin_transaction_simps)
  have so: "stdout s' = stdout s @ [Be_about_to_migrate db_name ?cur ?mx] @
           map Applying_version [?cur + 1 .. ?mx] @ [Migrated db_name ?cur ?mx]"
    using s' sb r(5) by (simp add: commit_transaction_def logged_def begin_transaction_simps)
  from cv led r(1) cl so vo c' lk tb sa key show ?thesis
    unfolding mx by blast
qed

text \<open>
  C2. Take a database in which the ids of the ledger rows came from the identity sequence
  of the table. A run of \<^verbatim>\<open>_migrate\<close> on a connection with no open transaction that gets
  the lock, finds the pending scripts \<open>pending\<close> (not empty) after the current version and
  returns normally has executed, after the table creation and the version read, the script texts of
  the versions \<open>current + 1, ..., max\<close> in ascending order, each once, and then one insert;
  the ledger has gained exactly one row \<open>(current, max)\<close>, and \<open>currentVersion\<close> is
  afterwards \<open>max\<close>, the largest pending version. With scripts for the versions 1, 2, 3
  and an empty ledger this is: scripts 1, 2, 3 in order, one row \<open>(0, 3)\<close>, current
  version 3.
\<close>

theorem successful_run_reaches_max_version:
  assumes "client env = postgres scripts" and "transaction s = None"
    and "lock_key env \<notin> set (locked_elsewhere (committed s))"
    and "sequence_ahead (committed s)"
    and "load_versions env (version_of (committed s)) = Inr pending" and "pending \<noteq> []"
    and "migrate env db_name s = (Inr (), s')"
  shows "currentVersion (committed s') = Inr (Max (fst ` set pending)) \<and>
         (\<exists>i. ledger (committed s') = ledger (committed s) @
                 [\<lparr>row_id = i, from_version = version_of (committed s),
                   to_version = Max (fst ` set pending), migrated_at = now env\<rparr>]) \<and>
         (\<exists>sqls. list_all2 (\<lambda>v sql. script_of env pending v = Inr sql)
                    [version_of (committed s) + 1 .. Max (fst ` set pending)] sqls \<and>
            calls s' = calls s @ [Begin, TryTransactionLock (lock_key env), Execute create_table_sql [],
                                  GetScalar current_version_sql []] @
                       map (\<lambda>sql. Execute sql []) sqls @
                       [Insert ''database_migration''
                          (ledger_row (version_of (committed s)) (Max (fst ` set pending)) (now env)),
                        Commit]) \<and>
         stdout s' = stdout s @
           [Be_about_to_migrate db_name (version_of (committed s)) (Max (fst ` set pending))] @
           map Applying_version [version_of (committed s) + 1 .. Max (fst ` set pending)] @
           [Migrated db_name (version_of (committed s)) (Max (fst ` set pending))]"
  using migrate_applies_pending[OF assms] by blast

lemma migrate_1_2_3:
  "migrate (example_env scripts_1_2_3) ''fas'' (fresh empty_database) =
     (Inr (),
      \<lparr>committed =
         \<lparr>database_migration =
            Some \<lparr>constraints = ledger_constraints,
                  rows = [\<lparr>row_id = 1, from_version = 0, to_version = 3, migrated_at = 1000\<rparr>],
                  identity = 2\<rparr>,
          application = [''ONE'', ''TWO'', ''THREE''], locked_elsewhere = []\<rparr>,
       transaction = None,
       calls = [Begin, TryTransactionLock 42, Execute create_table_sql [], GetScalar current_version_sql [],
          Execute ''ONE'' [], Execute ''TWO'' [], Execute ''THREE'' [],
          Insert ''database_migration'' (ledger_row 0 3 1000), Commit],
       stdout = [Be_about_to_migrate ''fas'' 0 3, Applying_version 1, Applying_version 2,
          Applying_version 3, Migrated ''fas'' 0 3]\<rparr>)"
  by (simp add: migrate_defs coroutine_defs postgres_defs example_defs ledger_row_def)

theorem successful_run_reaches_max_version_witness:
  "fst (migrate (example_env scripts_1_2_3) ''fas'' (fresh empty_database)) = Inr () \<and>
   currentVersion (committed (snd (migrate (example_env scripts_1_2_3) ''fas'' (fresh empty_database)))) = Inr 3 \<and>
   ledger (committed (snd (migrate (example_env scripts_1_2_3) ''fas'' (fresh empty_database)))) =
     [\<lparr>row_id = 1, from_version = 0, to_version = 3, migrated_at = 1000\<rparr>] \<and>
   calls (snd (migrate (example_env scripts_1_2_3) ''fas'' (fresh empty_database))) =
     [Begin, TryTransactionLock 42, Execute create_table_sql [], GetScalar current_version_sql [],
      Execute ''ONE'' [], Execute ''TWO'' [], Execute ''THREE'' [],
      Insert ''database_migration'' (ledger_row 0 3 1000), Commit] \<and>
   application (committed (snd (migrate (example_env scripts_1_2_3) ''fas'' (fresh empty_database)))) =
     [''ONE'', ''TWO'', ''THREE'']"
proof -
  let ?env = "example_env scripts_1_2_3"
  let ?s = "fresh empty_database"
  have c: "client ?env = postgres run_script"
    by (simp add: example_env_def)
  have n: "transaction ?s = None"
    by (simp add: fresh_def)
  have l: "lock_key ?env \<notin> set (locked_elsewhere (committed ?s))"
    by (simp add: example_env_def fresh_def empty_database_def)
  have a: "sequence_ahead (committed ?s)"
    by (simp add: sequence_ahead_def fresh_def empty_database_def)
  have v: "version_of (committed ?s) = 0"
    by (simp add: version_of_def ledger_def fresh_def empty_database_def py_or_def
        select_to_version_order_by_id_desc_limit_1_def)
  have p: "load_versions ?env (version_of (committed ?s)) = Inr scripts_1_2_3"
    unfolding v by (simp add: example_env_def load_versions_spec_def scripts_1_2_3_def)
  have ne: "scripts_1_2_3 \<noteq> []"
    by (simp add: scripts_1_2_3_def)
  have m: "Max (fst ` set scripts_1_2_3) = 3"
    by (simp add: scripts_1_2_3_def)
  from successful_run_reaches_max_version[OF c n l a p ne migrate_1_2_3]
  have "currentVersion (committed (snd (migrate ?env ''fas'' ?s))) = Inr 3"
    unfolding m by (simp add: migrate_1_2_3)
  then show ?thesis
    by (simp add: migrate_1_2_3 ledger_def)
qed

section \<open>A second run\<close>

lemma version_of_ensure_table: "version_of (ensure_table d) = version_of d"
  by (simp add: version_of_def ledger_ensure_table)

lemma ensure_table_idem: "database_migration d \<noteq> None \<Longrightarrow> ensure_table d = d"
  by (auto simp: ensure_table_def split: option.splits)

lemma ensure_table_not_None: "database_migration (ensure_table d) \<noteq> None"
  by (simp add: ensure_table_def split: option.splits)

lemma migrate_noop:
  assumes "client env = postgres scripts" and "transaction s = None"
    and "int8 (lock_key env)" and "lock_key env \<notin> set (locked_elsewhere (committed s))"
    and "load_versions env (version_of (committed s)) = Inr []"
  shows "fst (migrate env db_name s) = Inr () \<and>
         committed (snd (migrate env db_name s)) = ensure_table (committed s) \<and>
         transaction (snd (migrate env db_name s)) = None \<and>
         calls (snd (migrate env db_name s)) =
           calls s @ [Begin, TryTransactionLock (lock_key env), Execute create_table_sql [],
                      GetScalar current_version_sql [], Commit] \<and>
         stdout (snd (migrate env db_name s)) =
           stdout s @ [Did_not_migrate_no_scripts db_name (version_of (committed s))]"
proof -
  have tx0: "transaction (begin_transaction s) = Some (committed s)"
    by (simp add: begin_transaction_simps)
  from migrate_body_prefix[OF assms(1) tx0 assms(3,4), of db_name] assms(5)
  have body: "migrate_body env db_name (begin_transaction s) =
      print (Did_not_migrate_no_scripts db_name (version_of (committed s)))
        ((begin_transaction s)\<lparr>calls := calls (begin_transaction s) @
             [TryTransactionLock (lock_key env), Execute create_table_sql [],
              GetScalar current_version_sql []],
           transaction := Some (ensure_table (committed s))\<rparr>)"
    by (simp add: Let_def)
  show ?thesis
    unfolding migrate_def transactional_outcome[OF assms(2)] body
    by (simp add: print_def commit_transaction_def logged_def current_def begin_transaction_def)
qed

lemma migrate_success_key:
  assumes "client env = postgres scripts" and "transaction s = None"
    and "migrate env db_name s = (Inr (), s1)"
  shows "int8 (lock_key env)"
proof (rule ccontr)
  assume bad: "\<not> int8 (lock_key env)"
  have tx0: "transaction (begin_transaction s) = Some (committed s)"
    by (simp add: begin_transaction_simps)
  from migrate_body_bad_key[OF assms(1) tx0 bad, of db_name] assms(2,3)
  show False
    by (auto simp: migrate_def transactional_outcome split: sum.splits prod.splits)
qed

lemma migrate_success_loads:
  assumes "client env = postgres scripts" and "transaction s = None"
    and "lock_key env \<notin> set (locked_elsewhere (committed s))"
    and "migrate env db_name s = (Inr (), s1)"
  shows "\<exists>pending. load_versions env (version_of (committed s)) = Inr pending"
proof (cases "load_versions env (version_of (committed s))")
  case (Inr pending)
  then show ?thesis by blast
next
  case (Inl e)
  have tx0: "transaction (begin_transaction s) = Some (committed s)"
    by (simp add: begin_transaction_simps)
  from migrate_body_prefix[OF assms(1) tx0 migrate_success_key[OF assms(1,2,4)] assms(3), of db_name] Inl
  have "fst (migrate_body env db_name (begin_transaction s)) = Inl e"
    by (simp add: Let_def)
  with assms(2,4) show ?thesis
    by (auto simp: migrate_def transactional_outcome split: sum.splits prod.splits)
qed

lemma nothing_after_max:
  assumes "pending = filter (\<lambda>(v, p). cur < v) directory" and "pending \<noteq> []"
  shows "filter (\<lambda>(v, p). Max (fst ` set pending) < v) directory = []"
proof -
  let ?K = "fst ` set pending"
  have fin: "finite ?K" by simp
  from assms(2) have ne: "?K \<noteq> {}" by simp
  from Max_in[OF fin ne] obtain p where "(Max ?K, p) \<in> set pending" by auto
  with assms(1) have above: "cur < Max ?K" by simp
  have "\<not> Max ?K < v" if "(v, q) \<in> set directory" for v q
  proof (cases "cur < v")
    case True
    with that assms(1) have "(v, q) \<in> set pending" by simp
    then have "v \<in> ?K" by force
    from Max_ge[OF fin this] show ?thesis by simp
  next
    case False
    with above show ?thesis by simp
  qed
  then show ?thesis
    by (auto simp: filter_empty_conv)
qed

text \<open>
  C7. After a run of \<^verbatim>\<open>_migrate\<close> that got the lock and returned normally (on a database
  in which the ids of the ledger rows came from the identity sequence), a second run on the
  database the first one left, over the same scripts directory, finds no pending script
  (\<^verbatim>\<open>load_versions\<close> after the current version returns nothing): it returns normally, its
  only calls are the lock attempt, the table creation (which finds the table) and the
  version read, inside its transaction; it executes no script and inserts no row, the
  committed database is unchanged, and it prints that there are no scripts.
\<close>

theorem second_run_is_noop:
  assumes "client env = postgres scripts" and "load_versions env = load_versions_spec directory"
    and "transaction s = None" and "lock_key env \<notin> set (locked_elsewhere (committed s))"
    and "sequence_ahead (committed s)"
    and "migrate env db_name s = (Inr (), s1)"
  shows "load_versions env (version_of (committed s1)) = Inr [] \<and>
         fst (migrate env db_name (fresh (committed s1))) = Inr () \<and>
         committed (snd (migrate env db_name (fresh (committed s1)))) = committed s1 \<and>
         calls (snd (migrate env db_name (fresh (committed s1)))) =
           [Begin, TryTransactionLock (lock_key env), Execute create_table_sql [],
            GetScalar current_version_sql [], Commit] \<and>
         stdout (snd (migrate env db_name (fresh (committed s1)))) =
           [Did_not_migrate_no_scripts db_name (version_of (committed s1))]"
proof -
  let ?w = "committed s"
  let ?d = "committed s1"
  have key: "int8 (lock_key env)"
    using migrate_success_key[OF assms(1,3,6)] .
  from migrate_success_loads[OF assms(1,3,4,6)]
  obtain pending where load: "load_versions env (version_of ?w) = Inr pending" by blast
  with assms(2) have dist: "distinct (map fst directory)"
    and pend: "pending = filter (\<lambda>(v, p). version_of ?w < v) directory"
    by (auto simp: load_versions_spec_def split: if_splits)
  have after: "load_versions env (version_of ?d) = Inr [] \<and> database_migration ?d \<noteq> None \<and>
               locked_elsewhere ?d = locked_elsewhere ?w"
  proof (cases "pending = []")
    case True
    with load have l0: "load_versions env (version_of ?w) = Inr []" by simp
    from migrate_noop[OF assms(1,3) key assms(4) l0, of db_name] assms(6)
    have "?d = ensure_table ?w" by simp
    with l0 show ?thesis
      by (simp add: version_of_ensure_table ensure_table_not_None locked_ensure_table)
  next
    case False
    from migrate_applies_pending[OF assms(1,3,4,5) load False assms(6)]
    have v: "version_of ?d = Max (fst ` set pending)" and t: "database_migration ?d \<noteq> None"
      and l: "locked_elsewhere ?d = locked_elsewhere ?w"
      by blast+
    from nothing_after_max[OF pend False] dist assms(2) v
    have "load_versions env (version_of ?d) = Inr []"
      by (simp add: load_versions_spec_def)
    with t l show ?thesis by simp
  qed
  then have l1: "load_versions env (version_of (committed (fresh ?d))) = Inr []"
    and free: "lock_key env \<notin> set (locked_elsewhere (committed (fresh ?d)))"
    and tb: "ensure_table ?d = ?d"
    using assms(4) by (simp_all add: fresh_def ensure_table_idem)
  have n: "transaction (fresh ?d) = None"
    by (simp add: fresh_def)
  from migrate_noop[OF assms(1) n key free l1, of db_name] after tb
  show ?thesis
    by (simp add: fresh_def)
qed

theorem second_run_is_noop_witness:
  "committed (snd (migrate (example_env scripts_1_2_3) ''fas'' (fresh empty_database))) = database_at_3 \<and>
   load_versions (example_env scripts_1_2_3) (version_of database_at_3) = Inr [] \<and>
   fst (migrate (example_env scripts_1_2_3) ''fas'' (fresh database_at_3)) = Inr () \<and>
   committed (snd (migrate (example_env scripts_1_2_3) ''fas'' (fresh database_at_3))) = database_at_3 \<and>
   calls (snd (migrate (example_env scripts_1_2_3) ''fas'' (fresh database_at_3))) =
     [Begin, TryTransactionLock 42, Execute create_table_sql [], GetScalar current_version_sql [], Commit] \<and>
   stdout (snd (migrate (example_env scripts_1_2_3) ''fas'' (fresh database_at_3))) =
     [Did_not_migrate_no_scripts ''fas'' 3]"
proof -
  let ?env = "example_env scripts_1_2_3"
  let ?s = "fresh empty_database"
  have c: "client ?env = postgres run_script"
    by (simp add: example_env_def)
  have lv: "load_versions ?env = load_versions_spec scripts_1_2_3"
    by (simp add: example_env_def)
  have n: "transaction ?s = None"
    by (simp add: fresh_def)
  have l: "lock_key ?env \<notin> set (locked_elsewhere (committed ?s))"
    by (simp add: example_env_def fresh_def empty_database_def)
  have a: "sequence_ahead (committed ?s)"
    by (simp add: sequence_ahead_def fresh_def empty_database_def)
  have k: "lock_key ?env = 42"
    by (simp add: example_env_def)
  have v: "version_of database_at_3 = 3"
    by (simp add: database_at_3_def version_of_def ledger_def py_or_def
        select_to_version_order_by_id_desc_limit_1_def)
  have first: "committed (snd (migrate ?env ''fas'' ?s)) = database_at_3"
    by (simp add: migrate_1_2_3 database_at_3_def)
  from second_run_is_noop[OF c lv n l a migrate_1_2_3]
  have "load_versions ?env (version_of database_at_3) = Inr [] \<and>
        fst (migrate ?env ''fas'' (fresh database_at_3)) = Inr () \<and>
        committed (snd (migrate ?env ''fas'' (fresh database_at_3))) = database_at_3 \<and>
        calls (snd (migrate ?env ''fas'' (fresh database_at_3))) =
          [Begin, TryTransactionLock (lock_key ?env), Execute create_table_sql [],
           GetScalar current_version_sql [], Commit] \<and>
        stdout (snd (migrate ?env ''fas'' (fresh database_at_3))) =
          [Did_not_migrate_no_scripts ''fas'' (version_of database_at_3)]"
    by (simp add: database_at_3_def)
  with first show ?thesis
    unfolding k v by blast
qed

section \<open>A gap in the versions\<close>

lemma await_assoc: "await (await m f) g = await m (\<lambda>a. await (f a) g)"
  by (auto simp: await_def fun_eq_iff split: prod.splits sum.splits)

lemma await_return: "await (return a) f = f a"
  by (simp add: await_def return_def fun_eq_iff)

lemma apply_versions_append:
  "apply_versions env versions (xs @ ys) =
     await (apply_versions env versions xs) (\<lambda>_. apply_versions env versions ys)"
  by (induction xs) (simp_all add: await_assoc await_return)

lemma apply_versions_gap:
  assumes "map_of versions g = None"
  shows "apply_versions env versions (g # rest) s =
           (Inl (KeyError g), s\<lparr>stdout := stdout s @ [Applying_version g]\<rparr>)"
  using assms by (simp add: await_def print_def lift_def getitem_def)

lemma execute_migration_scripts_body_gap:
  assumes "map_of versions g = None" and "from_v < g" and "g \<le> to_v"
  shows "execute_migration_scripts_body env from_v to_v versions s =
     (case apply_versions env versions [from_v + 1 .. g - 1] s of
        (Inl e, s') \<Rightarrow> (Inl e, s')
      | (Inr u, s') \<Rightarrow> (Inl (KeyError g), s'\<lparr>stdout := stdout s' @ [Applying_version g]\<rparr>))"
proof -
  from assms(2,3) have parts: "[from_v + 1 .. to_v] = [from_v + 1 .. g - 1] @ g # [g + 1 .. to_v]"
    by (intro upto_split3) simp_all
  have gap: "apply_versions env versions (g # [g + 1 .. to_v]) =
      (\<lambda>s. (Inl (KeyError g), s\<lparr>stdout := stdout s @ [Applying_version g]\<rparr>))"
    by (rule ext) (rule apply_versions_gap[OF assms(1)])
  show ?thesis
    unfolding execute_migration_scripts_body_def parts apply_versions_append gap
    by (simp add: await_def split: prod.splits sum.splits)
qed

lemma migrate_reaches_loop:
  assumes "transaction s = None"
    and "try_transaction_lock (client env) (lock_key env) (committed s) = Inr (True, w1)"
    and "execute (client env) create_table_sql [] w1 = Inr w2"
    and "get_scalar (client env) current_version_sql [] w2 = Inr (v, w3)"
    and "load_versions env (py_or v 0) = Inr pending" and "pending \<noteq> []"
  shows "migrate env db_name s =
     (case execute_migration_scripts_body env (py_or v 0) (max_key pending) pending
             (loop_start s w3 (lock_key env) db_name (py_or v 0) (max_key pending)) of
        (Inl e, s') \<Rightarrow> (Inl e, rollback_transaction s')
      | (Inr u, s') \<Rightarrow>
          (Inr (), commit_transaction
             (s'\<lparr>stdout := stdout s' @ [Migrated db_name (py_or v 0) (max_key pending)]\<rparr>)))"
proof -
  obtain c t k out where s: "s = \<lparr>committed = c, transaction = t, calls = k, stdout = out\<rparr>"
    by (cases s) auto
  show ?thesis
    using assms unfolding s
    by (simp add: migrate_def migrate_body_def create_database_migration_table_if_not_exist_def
        read_current_version_def execute_migration_scripts_def loop_start_def coroutine_defs
        Let_def split: prod.split sum.split)
qed

text \<open>
  C3 (as amended). Take a run of \<^verbatim>\<open>_migrate\<close>, on a connection with no open transaction,
  that has computed its range: it got the lock, the table creation and the version read
  succeeded, and the loader returned pending scripts. When some version \<open>g\<close> of the range
  \<open>(current, target]\<close> has no script, the run fails, and the committed database, and so the
  ledger, is unchanged. The failure is the one that applying the scripts of the versions
  \<open>current + 1, ..., g - 1\<close> raises in the state of this run, when it raises one; when these
  are applied without a failure, it is the \<^verbatim>\<open>KeyError\<close> of the lookup \<^verbatim>\<open>versions[g]\<close>, the
  missing-version failure. With scripts for 1 and 3 that execute, and the ledger at 0, the
  run fails with \<^verbatim>\<open>KeyError(2)\<close>.
\<close>

theorem gap_in_versions_fails:
  fixes env :: "'u database environment"
  assumes "transaction s = None"
    and "try_transaction_lock (client env) (lock_key env) (committed s) = Inr (True, w1)"
    and "execute (client env) create_table_sql [] w1 = Inr w2"
    and "get_scalar (client env) current_version_sql [] w2 = Inr (v, w3)"
    and "load_versions env (py_or v 0) = Inr pending" and "pending \<noteq> []"
    and "map_of pending g = None" and "py_or v 0 < g" and "g \<le> max_key pending"
  shows "fst (migrate env db_name s) =
           (case fst (apply_versions env pending [py_or v 0 + 1 .. g - 1]
                        (loop_start s w3 (lock_key env) db_name (py_or v 0) (max_key pending))) of
              Inl e \<Rightarrow> Inl e
            | Inr u \<Rightarrow> Inl (KeyError g)) \<and>
         (\<exists>e. fst (migrate env db_name s) = Inl e) \<and>
         committed (snd (migrate env db_name s)) = committed s \<and>
         transaction (snd (migrate env db_name s)) = None \<and>
         ledger (committed (snd (migrate env db_name s))) = ledger (committed s)"
proof -
  let ?s4 = "loop_start s w3 (lock_key env) db_name (py_or v 0) (max_key pending)"
  let ?vs = "[py_or v 0 + 1 .. g - 1]"
  obtain r s5 where pre: "apply_versions env pending ?vs ?s4 = (r, s5)"
    by (cases "apply_versions env pending ?vs ?s4")
  have run: "fst (migrate env db_name s) = (case r of Inl e \<Rightarrow> Inl e | Inr u \<Rightarrow> Inl (KeyError g))"
    unfolding migrate_reaches_loop[OF assms(1-6)] execute_migration_scripts_body_gap[OF assms(7-9)] pre
    by (simp split: sum.split)
  then obtain e where e: "fst (migrate env db_name s) = Inl e"
    by (cases r) auto
  then have "migrate env db_name s = (Inl e, snd (migrate env db_name s))"
    by (metis prod.collapse)
  from transactional_failure[OF assms(1) keeps_migrate_body, of env db_name e "snd (migrate env db_name s)"] this
  have same: "committed (snd (migrate env db_name s)) = committed s \<and>
              transaction (snd (migrate env db_name s)) = None"
    by (simp add: migrate_def)
  from run pre e same show ?thesis by (cases r) auto
qed

lemma migrate_1_3:
  "migrate (example_env scripts_1_3) ''fas'' (fresh empty_database) =
     (Inl (KeyError 2),
      \<lparr>committed = empty_database, transaction = None,
        calls = [Begin, TryTransactionLock 42, Execute create_table_sql [], GetScalar current_version_sql [],
          Execute ''ONE'' [], Rollback],
        stdout = [Be_about_to_migrate ''fas'' 0 3, Applying_version 1, Applying_version 2]\<rparr>)"
  by (simp add: migrate_defs coroutine_defs postgres_defs example_defs)

lemma migrate_bad_3:
  "migrate (example_env scripts_bad_3) ''fas'' (fresh empty_database) =
     (Inl (PostgresError ''BROKEN''),
      \<lparr>committed = empty_database, transaction = None,
        calls = [Begin, TryTransactionLock 42, Execute create_table_sql [], GetScalar current_version_sql [],
          Execute ''BROKEN'' [], Rollback],
        stdout = [Be_about_to_migrate ''fas'' 0 3, Applying_version 1]\<rparr>)"
  by (simp add: migrate_defs coroutine_defs postgres_defs example_defs)

lemma version_of_empty_database: "version_of empty_database = 0"
  by (simp add: version_of_def ledger_def empty_database_def py_or_def
      select_to_version_order_by_id_desc_limit_1_def)

theorem gap_in_versions_fails_witness:
  "fst (migrate (example_env scripts_1_3) ''fas'' (fresh empty_database)) = Inl (KeyError 2) \<and>
   committed (snd (migrate (example_env scripts_1_3) ''fas'' (fresh empty_database))) = empty_database \<and>
   ledger (committed (snd (migrate (example_env scripts_1_3) ''fas'' (fresh empty_database)))) = []"
proof -
  let ?env = "example_env scripts_1_3"
  let ?s = "fresh empty_database"
  have n: "transaction ?s = None"
    by (simp add: fresh_def)
  have cs: "committed ?s = empty_database"
    by (simp add: fresh_def)
  have lock: "try_transaction_lock (client ?env) (lock_key ?env) (committed ?s) = Inr (True, empty_database)"
    unfolding cs by (simp add: example_defs postgres_defs)
  have create: "execute (client ?env) create_table_sql [] empty_database = Inr (ensure_table empty_database)"
    by (simp add: example_env_def postgres_def pg_execute_def ensure_table_def empty_database_def)
  have read: "get_scalar (client ?env) current_version_sql [] (ensure_table empty_database) =
      Inr (None, ensure_table empty_database)"
    by (simp add: example_env_def postgres_def pg_get_scalar_def ensure_table_def empty_database_def
        select_to_version_order_by_id_desc_limit_1_def)
  have load: "load_versions ?env (py_or None 0) = Inr scripts_1_3"
    by (simp add: example_env_def load_versions_spec_def scripts_1_3_def py_or_def)
  have ne: "scripts_1_3 \<noteq> []"
    by (simp add: scripts_1_3_def)
  have g: "map_of scripts_1_3 2 = None"
    by (simp add: scripts_1_3_def)
  have lo: "py_or None 0 < 2"
    by (simp add: py_or_def)
  have hi: "2 \<le> max_key scripts_1_3"
    by (simp add: scripts_1_3_def max_key_def)
  have below: "fst (apply_versions ?env scripts_1_3 [py_or None 0 + 1 .. 2 - 1]
      (loop_start ?s (ensure_table empty_database) (lock_key ?env) ''fas'' (py_or None 0)
         (max_key scripts_1_3))) = Inr ()"
    by (simp add: py_or_def loop_start_def getitem_def upto_rec1 coroutine_defs postgres_defs
        example_defs ensure_table_def)
  from gap_in_versions_fails[OF n lock create read load ne g lo hi, of "''fas''"] below
  have "fst (migrate ?env ''fas'' ?s) = Inl (KeyError 2) \<and>
        committed (snd (migrate ?env ''fas'' ?s)) = committed ?s \<and>
        ledger (committed (snd (migrate ?env ''fas'' ?s))) = ledger (committed ?s)"
    by simp
  then show ?thesis
    unfolding cs by (simp add: ledger_def empty_database_def)
qed

text \<open>
  The claim as stated fails when a script below the gap fails: with a script 1 that the
  engine rejects and a script 3, version 2 is missing in the range \<open>(0, 3]\<close>, and the run
  fails with the failure of script 1, not with the missing-version failure.
\<close>

theorem gap_with_failing_script_counterexample:
  "map_of scripts_bad_3 2 = None \<and>
   version_of (committed (fresh empty_database)) < 2 \<and> 2 \<le> max_key scripts_bad_3 \<and>
   load_versions (example_env scripts_bad_3) (version_of (committed (fresh empty_database))) = Inr scripts_bad_3 \<and>
   fst (migrate (example_env scripts_bad_3) ''fas'' (fresh empty_database)) = Inl (PostgresError ''BROKEN'') \<and>
   fst (migrate (example_env scripts_bad_3) ''fas'' (fresh empty_database)) \<noteq> Inl (KeyError 2)"
proof -
  have cs: "committed (fresh empty_database) = empty_database"
    by (simp add: fresh_def)
  show ?thesis
    unfolding cs version_of_empty_database migrate_bad_3
    by (simp add: scripts_bad_3_def max_key_def example_env_def load_versions_spec_def)
qed

section \<open>The guards of the migrate task\<close>

text \<open>
  C10. In the dev and in the test environment the task \<^verbatim>\<open>migrate\<close> runs neither guard. In any
  other environment its steps start with the guards (the unlocked-scripts check, then, when
  that passes, the locked-script-modified check) and no guard runs after any other step: the
  task asks the server for the database, creates it and acquires a connection only after
  both guards have run and passed.
\<close>

theorem guards_only_outside_dev_and_test:
  "(is_dev h \<or> is_test h \<longrightarrow> filter is_guard (steps_of (migrate_database h env db_name)) = []) \<and>
   (\<not> (is_dev h \<or> is_test h) \<longrightarrow>
      (takeWhile is_guard (steps_of (migrate_database h env db_name)) = [Check_no_scripts_not_locked] \<or>
       takeWhile is_guard (steps_of (migrate_database h env db_name)) =
         [Check_no_scripts_not_locked, Check_no_locked_scripts_changed]) \<and>
      filter is_guard (dropWhile is_guard (steps_of (migrate_database h env db_name))) = [] \<and>
      (dropWhile is_guard (steps_of (migrate_database h env db_name)) \<noteq> [] \<longrightarrow>
         check_no_scripts_not_locked h = None \<and> check_no_locked_scripts_changed h = None \<and>
         takeWhile is_guard (steps_of (migrate_database h env db_name)) =
           [Check_no_scripts_not_locked, Check_no_locked_scripts_changed]))"
  by (auto simp: migrate_database_def create_database_if_not_exist_def steps_of_def is_guard_def Let_def
      split: option.splits sum.splits prod.splits)

lemma steps_production:
  "steps_of (migrate_database production (example_env scripts_1_2_3) ''fas'') =
     [Check_no_scripts_not_locked, Check_no_locked_scripts_changed, Is_database_existed, Createdb,
      Acquire_connection]"
  by (simp add: migrate_database_def create_database_if_not_exist_def steps_of_def production_def
      split: prod.splits)

lemma steps_development:
  "steps_of (migrate_database development (example_env scripts_1_2_3) ''fas'') =
     [Is_database_existed, Createdb, Acquire_connection]"
  by (simp add: migrate_database_def create_database_if_not_exist_def steps_of_def production_def
      development_def split: prod.splits)

theorem guards_only_outside_dev_and_test_witness:
  "steps_of (migrate_database production (example_env scripts_1_2_3) ''fas'') =
     [Check_no_scripts_not_locked, Check_no_locked_scripts_changed, Is_database_existed, Createdb,
      Acquire_connection] \<and>
   takeWhile is_guard (steps_of (migrate_database production (example_env scripts_1_2_3) ''fas'')) =
     [Check_no_scripts_not_locked, Check_no_locked_scripts_changed] \<and>
   filter is_guard (dropWhile is_guard (steps_of (migrate_database production (example_env scripts_1_2_3) ''fas''))) = [] \<and>
   steps_of (migrate_database development (example_env scripts_1_2_3) ''fas'') =
     [Is_database_existed, Createdb, Acquire_connection] \<and>
   filter is_guard (steps_of (migrate_database development (example_env scripts_1_2_3) ''fas'')) = []"
proof -
  have p: "\<not> (is_dev production \<or> is_test production)"
    by (simp add: production_def)
  have d: "is_dev development \<or> is_test development"
    by (simp add: development_def)
  have ne: "dropWhile is_guard (steps_of (migrate_database production (example_env scripts_1_2_3) ''fas'')) \<noteq> []"
    by (simp add: steps_production is_guard_def)
  from guards_only_outside_dev_and_test[of production "example_env scripts_1_2_3" "''fas''"] p ne
  have a: "takeWhile is_guard (steps_of (migrate_database production (example_env scripts_1_2_3) ''fas'')) =
     [Check_no_scripts_not_locked, Check_no_locked_scripts_changed] \<and>
     filter is_guard (dropWhile is_guard (steps_of (migrate_database production (example_env scripts_1_2_3) ''fas''))) = []"
    by blast
  from guards_only_outside_dev_and_test[of development "example_env scripts_1_2_3" "''fas''"] d
  have b: "filter is_guard (steps_of (migrate_database development (example_env scripts_1_2_3) ''fas'')) = []"
    by blast
  from a b steps_production steps_development show ?thesis by blast
qed

section \<open>The lock key in two processes\<close>

lemma funpow_2: "(f ^^ 2) x = f (f x)"
  by (simp add: eval_nat_numeral)

lemma funpow_3: "(f ^^ 3) x = f (f (f x))"
  by (simp add: eval_nat_numeral)

lemma funpow_4: "(f ^^ 4) x = f (f (f (f x)))"
  by (simp add: eval_nat_numeral)

lemma lcg_urandom_numeral:
  "lcg_urandom x (numeral k) = (lcg_next x div 2 ^ 16) mod 256 # lcg_urandom (lcg_next x) (pred_numeral k)"
  by (simp add: numeral_eq_Suc)

lemma secret_of_seed_1: "secret_of_seed 1 = (12598376723466036009, 16999324916296290386)"
  by (simp add: secret_of_seed_def lcg_urandom_numeral lcg_next_def)

lemma secret_of_seed_2: "secret_of_seed 2 = (4611336564914921517, 11932672506142756049)"
  by (simp add: secret_of_seed_def lcg_urandom_numeral lcg_next_def)

lemma src_bytes:
  "map of_char (''i48gEtCCfX1lxPpWgVyBYH1z4VQpFNz7+'' @ MIGRATION_TABLE) =
     [105, 52, 56, 103, 69, 116, 67, 67, 102, 88, 49, 108, 120, 80, 112, 87, 103, 86, 121, 66, 89, 72, 49, 122,
      52, 86, 81, 112, 70, 78, 122, 55, 43, 100, 97, 116, 97, 98, 97, 115, 101, 95, 109, 105, 103, 114, 97, 116,
      105, 111, 110 :: int]"
  by (simp add: MIGRATION_TABLE_def)

lemma siphash13_seed_1:
  "siphash 1 3 (12598376723466036009, 16999324916296290386)
     [105, 52, 56, 103, 69, 116, 67, 67, 102, 88, 49, 108, 120, 80, 112, 87, 103, 86, 121, 66, 89, 72, 49, 122,
      52, 86, 81, 112, 70, 78, 122, 55, 43, 100, 97, 116, 97, 98, 97, 115, 101, 95, 109, 105, 103, 114, 97, 116,
      105, 111, 110] = 4074755411858632299"
  by (simp add: siphash_def u64_def ROTATE_def funpow_3)

lemma siphash13_seed_2:
  "siphash 1 3 (4611336564914921517, 11932672506142756049)
     [105, 52, 56, 103, 69, 116, 67, 67, 102, 88, 49, 108, 120, 80, 112, 87, 103, 86, 121, 66, 89, 72, 49, 122,
      52, 86, 81, 112, 70, 78, 122, 55, 43, 100, 97, 116, 97, 98, 97, 115, 101, 95, 109, 105, 103, 114, 97, 116,
      105, 111, 110] = 4555401668328678071"
  by (simp add: siphash_def u64_def ROTATE_def funpow_3)

lemma siphash24_seed_1:
  "siphash 2 4 (12598376723466036009, 16999324916296290386)
     [105, 52, 56, 103, 69, 116, 67, 67, 102, 88, 49, 108, 120, 80, 112, 87, 103, 86, 121, 66, 89, 72, 49, 122,
      52, 86, 81, 112, 70, 78, 122, 55, 43, 100, 97, 116, 97, 98, 97, 115, 101, 95, 109, 105, 103, 114, 97, 116,
      105, 111, 110] = 17184637991207588437"
  by (simp add: siphash_def u64_def ROTATE_def funpow_2 funpow_4)

lemma siphash24_seed_2:
  "siphash 2 4 (4611336564914921517, 11932672506142756049)
     [105, 52, 56, 103, 69, 116, 67, 67, 102, 88, 49, 108, 120, 80, 112, 87, 103, 86, 121, 66, 89, 72, 49, 122,
      52, 86, 81, 112, 70, 78, 122, 55, 43, 100, 97, 116, 97, 98, 97, 115, 101, 95, 109, 105, 103, 114, 97, 116,
      105, 111, 110] = 4910626802909357462"
  by (simp add: siphash_def u64_def ROTATE_def funpow_2 funpow_4)

lemma key13_seed_1: "MIGRATION_LOCK_KEY (siphash 1 3) (secret_of_seed 1) = 4074755411858632299"
  unfolding MIGRATION_LOCK_KEY_def py_hash_def src_bytes secret_of_seed_1 siphash13_seed_1 by simp

lemma key13_seed_2: "MIGRATION_LOCK_KEY (siphash 1 3) (secret_of_seed 2) = 4555401668328678071"
  unfolding MIGRATION_LOCK_KEY_def py_hash_def src_bytes secret_of_seed_2 siphash13_seed_2 by simp

lemma key24_seed_1: "MIGRATION_LOCK_KEY (siphash 2 4) (secret_of_seed 1) = - 1262106082501963179"
  unfolding MIGRATION_LOCK_KEY_def py_hash_def src_bytes secret_of_seed_1 siphash24_seed_1 by simp

lemma key24_seed_2: "MIGRATION_LOCK_KEY (siphash 2 4) (secret_of_seed 2) = 4910626802909357462"
  unfolding MIGRATION_LOCK_KEY_def py_hash_def src_bytes secret_of_seed_2 siphash24_seed_2 by simp

text \<open>
  C8. The lock key of the code is not the same in every process. Evaluated at the string
  of line 124, \<^verbatim>\<open>MIGRATION_LOCK_KEY\<close> is 4074755411858632299 in a process started with
  \<^verbatim>\<open>PYTHONHASHSEED=1\<close> and 4555401668328678071 in one started with \<^verbatim>\<open>PYTHONHASHSEED=2\<close>
  (SipHash-1-3, Python 3.11 and later), and -1262106082501963179 and 4910626802909357462 with
  the SipHash-2-4 of the earlier versions: two processes with different hash secrets
  compute different keys.
\<close>

theorem lock_key_differs_between_processes:
  "MIGRATION_LOCK_KEY (siphash 1 3) (secret_of_seed 1) = 4074755411858632299 \<and>
   MIGRATION_LOCK_KEY (siphash 1 3) (secret_of_seed 2) = 4555401668328678071 \<and>
   MIGRATION_LOCK_KEY (siphash 2 4) (secret_of_seed 1) = - 1262106082501963179 \<and>
   MIGRATION_LOCK_KEY (siphash 2 4) (secret_of_seed 2) = 4910626802909357462 \<and>
   MIGRATION_LOCK_KEY (siphash 1 3) (secret_of_seed 1) \<noteq> MIGRATION_LOCK_KEY (siphash 1 3) (secret_of_seed 2) \<and>
   MIGRATION_LOCK_KEY (siphash 2 4) (secret_of_seed 1) \<noteq> MIGRATION_LOCK_KEY (siphash 2 4) (secret_of_seed 2)"
  unfolding key13_seed_1 key13_seed_2 key24_seed_1 key24_seed_2 by simp

text \<open>
  So the lock does not exclude the second process: while process 1 holds the lock under its
  key, process 2 gets the lock under its own key and applies the scripts; a process with
  the key of process 1 would have been turned away.
\<close>

lemma second_process_is_not_excluded:
  "fst (migrate (process_env 2 scripts_1_2_3) ''fas'' (fresh locked_by_process_1)) = Inr () \<and>
   application (committed (snd (migrate (process_env 2 scripts_1_2_3) ''fas'' (fresh locked_by_process_1)))) =
     [''ONE'', ''TWO'', ''THREE''] \<and>
   stdout (snd (migrate (process_env 1 scripts_1_2_3) ''fas'' (fresh locked_by_process_1))) =
     [Did_not_migrate_parallel ''fas'']"
  unfolding process_env_def locked_by_process_1_def key13_seed_1 key13_seed_2
  by (simp add: migrate_defs coroutine_defs postgres_defs example_defs)

end
